theory Spec2Isabelle
  imports Main "HOL-Library.Char_ord" "HOL-Library.List_Lexorder" "HOL-Library.Multiset"
begin

section \<open>JavaScript values\<close>

text \<open>
  Request bodies, the completion service's reply and the decoded token all reach the
  handlers as parsed JSON. A number is carried by its canonical rendering (what
  \<^verbatim>\<open>String(n)\<close> returns), which determines it: no handler computes with a body number,
  they only test it for truthiness and render it. \<open>JObj\<close> lists the own properties in
  the order \<^verbatim>\<open>Object.entries\<close> enumerates them. JavaScript's \<^verbatim>\<open>undefined\<close> is
  \<open>None\<close> of \<open>json option\<close>.

  A string is a list of 8-bit characters. The handlers compare strings, join them and
  cut the prefix \<^verbatim>\<open>Bearer \<close>, which reads the same on bytes as on UTF-16 units; the
  white space \<^verbatim>\<open>parseInt\<close> skips is the ASCII part of JavaScript's.
\<close>

datatype json =
    JNull
  | JBool bool
  | JNum string
  | JStr string
  | JArr "json list"
  | JObj "(string \<times> json) list"

text \<open>What a handler can throw, or let escape.\<close>

datatype exn =
    HTTPException nat string
  | TypeError
  | SyntaxError
  | Error string
  | D1Error

text \<open>\<^verbatim>\<open>!v\<close>: the falsy values among parsed JSON and \<^verbatim>\<open>undefined\<close>.\<close>

fun falsy :: "json option \<Rightarrow> bool" where
  "falsy None = True"
| "falsy (Some JNull) = True"
| "falsy (Some (JBool b)) = (\<not> b)"
| "falsy (Some (JNum s)) = (s = ''0'')"
| "falsy (Some (JStr s)) = (s = [])"
| "falsy (Some (JArr xs)) = False"
| "falsy (Some (JObj fs)) = False"

text \<open>
  Property read \<^verbatim>\<open>v.k\<close> and \<^verbatim>\<open>v[0]\<close>, for the names the handlers read (\<open>content\<close>,
  \<open>email\<close>, \<open>name\<close>, \<open>text\<close>, \<open>0\<close>), none of which is inherited from a prototype.
  Reading a property of \<^verbatim>\<open>null\<close> or \<^verbatim>\<open>undefined\<close> throws a TypeError.
\<close>

fun js_get :: "json option \<Rightarrow> string \<Rightarrow> exn + json option" where
  "js_get None k = Inl TypeError"
| "js_get (Some JNull) k = Inl TypeError"
| "js_get (Some (JObj fs)) k = Inr (map_of fs k)"
| "js_get (Some (JArr xs)) k =
     Inr (if k = ''0'' then (case xs of [] \<Rightarrow> None | x # _ \<Rightarrow> Some x) else None)"
| "js_get (Some (JStr s)) k =
     Inr (if k = ''0'' then (case s of [] \<Rightarrow> None | c # _ \<Rightarrow> Some (JStr [c])) else None)"
| "js_get (Some (JBool b)) k = Inr None"
| "js_get (Some (JNum n)) k = Inr None"

text \<open>\<^verbatim>\<open>Array.prototype.join\<close> on strings, and \<^verbatim>\<open>s || d\<close> on a string \<open>s\<close>.\<close>

fun js_join :: "string \<Rightarrow> string list \<Rightarrow> string" where
  "js_join sep [] = []"
| "js_join sep [x] = x"
| "js_join sep (x # y # ys) = x @ sep @ js_join sep (y # ys)"

definition or_else :: "string \<Rightarrow> string \<Rightarrow> string" where
  "or_else s d = (if s = [] then d else s)"

text \<open>
  \<^verbatim>\<open>String(v)\<close>, which is also what a template literal applies. A parsed object renders
  as \<^verbatim>\<open>[object Object]\<close> through the inherited \<^verbatim>\<open>toString\<close>; an own property named
  \<open>toString\<close> (never callable in parsed JSON) shadows it, the inherited
  \<^verbatim>\<open>valueOf\<close> returns the object itself, and the conversion throws a TypeError. An
  array joins its elements with a comma, \<^verbatim>\<open>null\<close> elements rendering as the empty
  string.
\<close>

fun collect :: "(exn + 'a) list \<Rightarrow> exn + 'a list" where
  "collect [] = Inr []"
| "collect (Inl e # rs) = Inl e"
| "collect (Inr x # rs) = (case collect rs of Inl e \<Rightarrow> Inl e | Inr xs \<Rightarrow> Inr (x # xs))"

fun js_String :: "json \<Rightarrow> exn + string" where
  "js_String JNull = Inr ''null''"
| "js_String (JBool b) = Inr (if b then ''true'' else ''false'')"
| "js_String (JNum s) = Inr s"
| "js_String (JStr s) = Inr s"
| "js_String (JArr xs) =
     (case collect (map (\<lambda>x. if x = JNull then Inr [] else js_String x) xs) of
        Inl e \<Rightarrow> Inl e
      | Inr ss \<Rightarrow> Inr (js_join '','' ss))"
| "js_String (JObj fs) =
     (if ''toString'' \<in> fst ` set fs then Inl TypeError else Inr ''[object Object]'')"

text \<open>\<^verbatim>\<open>s.startsWith(p)\<close> and \<^verbatim>\<open>s.substring(n)\<close>.\<close>

definition startsWith :: "string \<Rightarrow> string \<Rightarrow> bool" where
  "startsWith s p = (take (length p) s = p)"

definition substring :: "string \<Rightarrow> nat \<Rightarrow> string" where
  "substring s n = drop n s"

text \<open>
  \<^verbatim>\<open>Number.parseInt(s)\<close> with no radix: leading white space is skipped, a sign is
  read, a \<open>0x\<close> prefix selects base 16, and the longest run of digits is the value;
  no digit at all gives \<^verbatim>\<open>NaN\<close>, here \<open>None\<close>. The value is the mathematical one,
  which is the JavaScript number as long as it is at most \<open>2 ^ 53\<close> in magnitude.
\<close>

definition isWhite :: "char \<Rightarrow> bool" where
  "isWhite c = (c \<in> {CHR 0x09, CHR 0x0A, CHR 0x0B, CHR 0x0C, CHR 0x0D, CHR '' ''})"

definition digitVal :: "char \<Rightarrow> nat option" where
  "digitVal c =
     (let n = (of_char c :: nat) in
      if 48 \<le> n \<and> n \<le> 57 then Some (n - 48)
      else if 97 \<le> n \<and> n \<le> 122 then Some (n - 87)
      else if 65 \<le> n \<and> n \<le> 90 then Some (n - 55)
      else None)"

definition isDigit :: "nat \<Rightarrow> char \<Rightarrow> bool" where
  "isDigit radix c = (case digitVal c of None \<Rightarrow> False | Some d \<Rightarrow> d < radix)"

definition digitsValue :: "nat \<Rightarrow> string \<Rightarrow> nat" where
  "digitsValue radix ds = fold (\<lambda>c acc. acc * radix + the (digitVal c)) ds 0"

definition parseInt :: "string \<Rightarrow> int option" where
  "parseInt s =
     (let s1 = dropWhile isWhite s;
          neg = (s1 \<noteq> [] \<and> hd s1 = CHR ''-'');
          s2 = (if s1 \<noteq> [] \<and> (hd s1 = CHR ''-'' \<or> hd s1 = CHR ''+'') then tl s1 else s1);
          hex = (take 2 s2 = ''0x'' \<or> take 2 s2 = ''0X'');
          radix = (if hex then 16 else 10);
          s3 = (if hex then drop 2 s2 else s2);
          ds = takeWhile (isDigit radix) s3
      in if ds = [] then None
         else Some (if neg then - int (digitsValue radix ds) else int (digitsValue radix ds)))"

section \<open>The schema\<close>

text \<open>
  The three tables of \<^verbatim>\<open>db/schema.ts\<close>. A \<^verbatim>\<open>text\<close> column holds a string and a
  nullable one a \<open>string option\<close>; the timestamps are the text \<^verbatim>\<open>CURRENT_TIMESTAMP\<close>
  produces, compared as text. Each table keeps the largest row id it has ever handed
  out, as \<^verbatim>\<open>AUTOINCREMENT\<close> does.
\<close>

record user_row =
  user_id :: nat
  user_email :: string
  user_name :: "string option"
  user_createdAt :: string
  user_updatedAt :: string

record entry_row =
  entry_id :: nat
  entry_userId :: nat
  entry_content :: string
  entry_aiResponse :: "string option"
  entry_createdAt :: string

record context_row =
  context_id :: nat
  context_userId :: nat
  contextKey :: string
  contextValue :: string
  context_createdAt :: string
  context_updatedAt :: string

record db =
  users :: "user_row list"
  userEntries :: "entry_row list"
  userContext :: "context_row list"
  seq_users :: nat
  seq_userEntries :: nat
  seq_userContext :: nat

text \<open>
  What the handlers get from outside the repository: the token functions of
  \<^verbatim>\<open>hono/jwt\<close> (\<open>verify\<close> yields the \<open>userId\<close> claim of a token that verifies against
  the secret, and \<open>None\<close> where it throws), the completion service behind \<^verbatim>\<open>fetch\<close>
  (its answer to a prompt; model, token limit and headers are constants of the code),
  and the two places where the result depends on the database driver and the query
  builder rather than on the code: binding a JavaScript value that is neither a string
  nor \<^verbatim>\<open>null\<close> to a text column, and a \<^verbatim>\<open>limit\<close>/\<^verbatim>\<open>offset\<close> pair outside
  \<open>limit \<ge> 1\<close>, \<open>offset \<ge> 0\<close>.

  A statement fails where the schema says so (a \<^verbatim>\<open>NULL\<close> for a \<^verbatim>\<open>notNull()\<close>
  column, a second row with the same email, a user id that references no user) and
  where it binds more parameters than the platform takes, which only the insert of a
  profile update can. Outages of the store are outside the model.
\<close>

datatype fetch_result =
    Rejected
  | Response bool "json option"

record env =
  JWT_SECRET :: string
  verify :: "string \<Rightarrow> string \<Rightarrow> nat option"
  sign :: "nat \<Rightarrow> string \<Rightarrow> string"
  fetch :: "string \<Rightarrow> fetch_result"
  bind_other :: "json \<Rightarrow> exn + string option"
  page_other :: "int option \<Rightarrow> int option \<Rightarrow> entry_row list \<Rightarrow> exn + entry_row list"

section \<open>Storage operations\<close>

text \<open>
  A JavaScript value bound to a text column: \<^verbatim>\<open>null\<close> and, in an insert,
  \<^verbatim>\<open>undefined\<close> store \<^verbatim>\<open>NULL\<close>; a string stores itself; anything else is the
  driver's business. A \<^verbatim>\<open>NULL\<close> for a \<^verbatim>\<open>notNull()\<close> column fails the statement.
\<close>

fun bind_text :: "env \<Rightarrow> json option \<Rightarrow> exn + string option" where
  "bind_text e None = Inr None"
| "bind_text e (Some JNull) = Inr None"
| "bind_text e (Some (JStr s)) = Inr (Some s)"
| "bind_text e (Some v) = bind_other e v"

fun notNull :: "exn + string option \<Rightarrow> exn + string" where
  "notNull (Inl x) = Inl x"
| "notNull (Inr None) = Inl D1Error"
| "notNull (Inr (Some s)) = Inr s"

definition next_id :: "nat \<Rightarrow> nat list \<Rightarrow> nat" where
  "next_id seq ids = Suc (fold max ids seq)"

definition insert_user :: "string \<Rightarrow> string \<Rightarrow> string option \<Rightarrow> db \<Rightarrow> exn + user_row \<times> db" where
  "insert_user now email name d =
     (if email \<in> set (map user_email (users d)) then Inl D1Error
      else
        let i = next_id (seq_users d) (map user_id (users d));
            row = \<lparr>user_id = i, user_email = email, user_name = name,
                   user_createdAt = now, user_updatedAt = now\<rparr>
        in Inr (row, d\<lparr>users := users d @ [row], seq_users := i\<rparr>))"

definition insert_entry ::
  "string \<Rightarrow> nat \<Rightarrow> string \<Rightarrow> string option \<Rightarrow> db \<Rightarrow> exn + entry_row \<times> db" where
  "insert_entry now userId content aiResponse d =
     (if userId \<notin> set (map user_id (users d)) then Inl D1Error
      else
        let i = next_id (seq_userEntries d) (map entry_id (userEntries d));
            row = \<lparr>entry_id = i, entry_userId = userId, entry_content = content,
                   entry_aiResponse = aiResponse, entry_createdAt = now\<rparr>
        in Inr (row, d\<lparr>userEntries := userEntries d @ [row], seq_userEntries := i\<rparr>))"

definition add_context :: "string \<Rightarrow> nat \<times> string \<times> string \<Rightarrow> db \<Rightarrow> db" where
  "add_context now v d =
     (let i = next_id (seq_userContext d) (map context_id (userContext d));
          row = \<lparr>context_id = i, context_userId = fst v, contextKey = fst (snd v),
                 contextValue = snd (snd v), context_createdAt = now, context_updatedAt = now\<rparr>
      in d\<lparr>userContext := userContext d @ [row], seq_userContext := i\<rparr>)"

text \<open>
  The rows of a profile update go into one statement, which binds three parameters
  per row: the user id, the key and the value (the row id and the two timestamps are
  defaults). The platform refuses a statement with more than a hundred bound
  parameters, so the insert fails from the 34th row on.
\<close>

definition max_bound_parameters :: nat where
  "max_bound_parameters = 100"

definition insert_context :: "string \<Rightarrow> (nat \<times> string \<times> string) list \<Rightarrow> db \<Rightarrow> exn + db" where
  "insert_context now vs d =
     (if max_bound_parameters < 3 * length vs then Inl D1Error
      else if list_all (\<lambda>v. fst v \<in> set (map user_id (users d))) vs
      then Inr (fold (add_context now) vs d) else Inl D1Error)"

definition delete_context :: "nat \<Rightarrow> db \<Rightarrow> db" where
  "delete_context userId d =
     d\<lparr>userContext := filter (\<lambda>r. context_userId r \<noteq> userId) (userContext d)\<rparr>"

text \<open>
  \<^verbatim>\<open>orderBy(desc(createdAt))\<close>. Rows with equal timestamps keep their table order;
  SQL leaves that order open, and the theorems below state what holds for any order
  of the ties where they can.
\<close>

fun insert_desc :: "entry_row \<Rightarrow> entry_row list \<Rightarrow> entry_row list" where
  "insert_desc x [] = [x]"
| "insert_desc x (y # ys) =
     (if entry_createdAt y \<le> entry_createdAt x then x # y # ys else y # insert_desc x ys)"

definition orderBy_desc :: "entry_row list \<Rightarrow> entry_row list" where
  "orderBy_desc xs = foldr insert_desc xs []"

abbreviation newest_first :: "entry_row list \<Rightarrow> bool" where
  "newest_first \<equiv> sorted_wrt (\<lambda>a b. entry_createdAt b \<le> entry_createdAt a)"

definition entries_of :: "nat \<Rightarrow> db \<Rightarrow> entry_row list" where
  "entries_of userId d = orderBy_desc (filter (\<lambda>r. entry_userId r = userId) (userEntries d))"

definition context_of :: "nat \<Rightarrow> db \<Rightarrow> context_row list" where
  "context_of userId d = filter (\<lambda>r. context_userId r = userId) (userContext d)"

text \<open>
  \<^verbatim>\<open>limit(l).offset(o)\<close>: for \<open>l \<ge> 1\<close> and \<open>o \<ge> 0\<close> the rows after the first \<open>o\<close>,
  at most \<open>l\<close> of them. Outside that range (\<^verbatim>\<open>NaN\<close>, zero or negative limit) the
  query builder decides whether a clause is emitted at all.
\<close>

definition paginate ::
  "env \<Rightarrow> int option \<Rightarrow> int option \<Rightarrow> entry_row list \<Rightarrow> exn + entry_row list" where
  "paginate e limit offset rows =
     (case (limit, offset) of
        (Some l, Some off) \<Rightarrow>
          if 1 \<le> l \<and> l \<le> 2 ^ 53 \<and> 0 \<le> off \<and> off \<le> 2 ^ 53
          then Inr (take (nat l) (drop (nat off) rows))
          else page_other e limit offset rows
      | _ \<Rightarrow> page_other e limit offset rows)"

section \<open>Responses\<close>

datatype body =
    TextBody string
  | ErrorBody string
  | LoginBody string nat string "string option"
  | EntryBody entry_row "json option"
  | EntriesBody "entry_row list"
  | ProfileBody nat string "string option" "(string \<times> string list) list"
  | SuccessBody bool string
  | OpenAPIBody string string

type_synonym response = "nat \<times> body"

text \<open>
  What a request comes to: the response, or the exception that leaves the handler;
  the database afterwards; and the prompts sent to the completion service, in order.
\<close>

type_synonym result = "(exn + response) \<times> db \<times> string list"

section \<open>The authentication middleware\<close>

text \<open>
  The handler behind the middleware runs inside its \<^verbatim>\<open>try\<close>, but the dispatcher turns
  an exception of that handler into a response before \<^verbatim>\<open>next()\<close> resolves, so the
  \<^verbatim>\<open>catch\<close> sees only what \<^verbatim>\<open>verify\<close> throws.
\<close>

definition authMiddleware :: "env \<Rightarrow> string option \<Rightarrow> db \<Rightarrow> (nat \<Rightarrow> result) \<Rightarrow> result" where
  "authMiddleware e authHeader d next =
     (case authHeader of
        None \<Rightarrow> (Inl (HTTPException 401 ''Unauthorized''), d, [])
      | Some h \<Rightarrow>
          if h = [] \<or> \<not> startsWith h ''Bearer ''
          then (Inl (HTTPException 401 ''Unauthorized''), d, [])
          else (case verify e (substring h 7) (JWT_SECRET e) of
                  None \<Rightarrow> (Inl (HTTPException 401 ''Invalid token''), d, [])
                | Some userId \<Rightarrow> next userId))"

section \<open>POST /auth/login\<close>

definition login_try :: "env \<Rightarrow> string \<Rightarrow> json option \<Rightarrow> json option \<Rightarrow> db \<Rightarrow> (exn + response) \<times> db" where
  "login_try e now email name d =
     (case bind_text e email of
        Inl x \<Rightarrow> (Inl x, d)
      | Inr em \<Rightarrow>
          (case (case em of None \<Rightarrow> [] | Some a \<Rightarrow> filter (\<lambda>u. user_email u = a) (users d)) of
             user # _ \<Rightarrow>
               (Inr (200, LoginBody (sign e (user_id user) (JWT_SECRET e))
                            (user_id user) (user_email user) (user_name user)), d)
           | [] \<Rightarrow>
               (case notNull (Inr em) of
                  Inl x \<Rightarrow> (Inl x, d)
                | Inr a \<Rightarrow>
                    (case bind_text e (if falsy name then Some JNull else name) of
                       Inl x \<Rightarrow> (Inl x, d)
                     | Inr nm \<Rightarrow>
                         (case insert_user now a nm d of
                            Inl x \<Rightarrow> (Inl x, d)
                          | Inr (user, d') \<Rightarrow>
                              (Inr (200, LoginBody (sign e (user_id user) (JWT_SECRET e))
                                           (user_id user) (user_email user) (user_name user)),
                               d'))))))"

definition login :: "env \<Rightarrow> string \<Rightarrow> json \<Rightarrow> db \<Rightarrow> result" where
  "login e now body d =
     (case js_get (Some body) ''email'' of
        Inl x \<Rightarrow> (Inl x, d, [])
      | Inr email \<Rightarrow>
          (case js_get (Some body) ''name'' of
             Inl x \<Rightarrow> (Inl x, d, [])
           | Inr name \<Rightarrow>
               if falsy email then (Inr (400, ErrorBody ''Email is required''), d, [])
               else (case login_try e now email name d of
                       (Inl x, d') \<Rightarrow> (Inr (500, ErrorBody ''Login failed''), d', [])
                     | (Inr r, d') \<Rightarrow> (Inr r, d', []))))"

section \<open>POST /entries\<close>

definition contextString :: "context_row list \<Rightarrow> string" where
  "contextString userContextData =
     js_join '', '' (map (\<lambda>ctx. contextKey ctx @ '': '' @ contextValue ctx) userContextData)"

text \<open>A \<^verbatim>\<open>NULL\<close> response reads back as \<^verbatim>\<open>null\<close>, which the template renders as such.\<close>

definition historyBlock :: "entry_row \<Rightarrow> string" where
  "historyBlock entry =
     ''User: '' @ entry_content entry @ [CHR 0x0A] @ ''AI: '' @
     (case entry_aiResponse entry of None \<Rightarrow> ''null'' | Some a \<Rightarrow> a)"

definition historyString :: "entry_row list \<Rightarrow> string" where
  "historyString recentEntries = js_join [CHR 0x0A, CHR 0x0A] (map historyBlock recentEntries)"

definition aiPrompt :: "string \<Rightarrow> string \<Rightarrow> string \<Rightarrow> string" where
  "aiPrompt ctx hist content =
     ''You are a personal well-being assistant focused on helping people become happier. ''
     @ [CHR 0x0A, CHR 0x0A]
     @ ''User Context: '' @ or_else ctx ''No specific context available''
     @ [CHR 0x0A, CHR 0x0A]
     @ ''Recent conversation history:'' @ [CHR 0x0A]
     @ or_else hist ''No previous conversations''
     @ [CHR 0x0A, CHR 0x0A]
     @ ''Current user input: '' @ [CHR 0x22] @ content @ [CHR 0x22]
     @ [CHR 0x0A, CHR 0x0A]
     @ ''Please provide personalized, actionable advice to help this person improve their well-being and happiness. Be empathetic, specific, and solution-focused. Consider their unique circumstances and history.''"

definition recentEntries :: "nat \<Rightarrow> db \<Rightarrow> entry_row list" where
  "recentEntries userId d = take 5 (entries_of userId d)"

definition prompt_of :: "nat \<Rightarrow> db \<Rightarrow> string \<Rightarrow> string" where
  "prompt_of userId d content =
     aiPrompt (contextString (context_of userId d)) (historyString (recentEntries userId d)) content"

text \<open>\<^verbatim>\<open>aiData.content[0].text\<close>.\<close>

definition recommendation_of :: "json \<Rightarrow> exn + json option" where
  "recommendation_of aiData =
     (case js_get (Some aiData) ''content'' of
        Inl x \<Rightarrow> Inl x
      | Inr c \<Rightarrow> (case js_get c ''0'' of Inl x \<Rightarrow> Inl x | Inr b \<Rightarrow> js_get b ''text''))"

text \<open>
  The call to the completion service, up to the text it yields: \<^verbatim>\<open>fetch\<close> rejects,
  the status is not a success, the body is not JSON, or the property chain throws.
\<close>

definition completion :: "env \<Rightarrow> string \<Rightarrow> exn + json option" where
  "completion e prompt =
     (case fetch e prompt of
        Rejected \<Rightarrow> Inl (Error ''fetch failed'')
      | Response ok data \<Rightarrow>
          if \<not> ok then Inl (Error ''AI service unavailable'')
          else (case data of None \<Rightarrow> Inl SyntaxError | Some aiData \<Rightarrow> recommendation_of aiData))"

definition post_entries_try :: "env \<Rightarrow> string \<Rightarrow> nat \<Rightarrow> json \<Rightarrow> db \<Rightarrow> result" where
  "post_entries_try e now userId content d =
     (case js_String content of
        Inl x \<Rightarrow> (Inl x, d, [])
      | Inr c \<Rightarrow>
          let prompt = prompt_of userId d c in
          (case completion e prompt of
             Inl x \<Rightarrow> (Inl x, d, [prompt])
           | Inr recommendation \<Rightarrow>
               (case notNull (bind_text e (Some content)) of
                  Inl x \<Rightarrow> (Inl x, d, [prompt])
                | Inr text \<Rightarrow>
                    (case bind_text e recommendation of
                       Inl x \<Rightarrow> (Inl x, d, [prompt])
                     | Inr ai \<Rightarrow>
                         (case insert_entry now userId text ai d of
                            Inl x \<Rightarrow> (Inl x, d, [prompt])
                          | Inr (newEntry, d') \<Rightarrow>
                              (Inr (200, EntryBody newEntry recommendation), d', [prompt]))))))"

definition post_entries :: "env \<Rightarrow> string \<Rightarrow> nat \<Rightarrow> json \<Rightarrow> db \<Rightarrow> result" where
  "post_entries e now userId body d =
     (case js_get (Some body) ''content'' of
        Inl x \<Rightarrow> (Inl x, d, [])
      | Inr None \<Rightarrow> (Inr (400, ErrorBody ''Content is required''), d, [])
      | Inr (Some content) \<Rightarrow>
          if falsy (Some content) then (Inr (400, ErrorBody ''Content is required''), d, [])
          else (case post_entries_try e now userId content d of
                  (Inl x, d', calls) \<Rightarrow>
                    (Inr (500, ErrorBody ''Failed to generate recommendation''), d', calls)
                | r \<Rightarrow> r))"

section \<open>GET /entries\<close>

definition query_or :: "string option \<Rightarrow> string \<Rightarrow> string" where
  "query_or q d = (case q of None \<Rightarrow> d | Some s \<Rightarrow> or_else s d)"

definition get_entries :: "env \<Rightarrow> nat \<Rightarrow> string option \<Rightarrow> string option \<Rightarrow> db \<Rightarrow> result" where
  "get_entries e userId limit offset d =
     (case paginate e (parseInt (query_or limit ''20'')) (parseInt (query_or offset ''0''))
             (entries_of userId d) of
        Inl x \<Rightarrow> (Inr (500, ErrorBody ''Failed to fetch entries''), d, [])
      | Inr entries \<Rightarrow> (Inr (200, EntriesBody entries), d, []))"

section \<open>GET /profile\<close>

text \<open>
  The grouping object starts as \<^verbatim>\<open>{}\<close>, so a read of a key it does not own finds
  what \<^verbatim>\<open>Object.prototype\<close> has under that name. Such a member is truthy, no list is
  created for the key, and the \<^verbatim>\<open>push\<close> on it throws. The grouped object is kept
  as the list of its keys in the order they were created, each with its values; the
  order of the keys carries no meaning in the JSON that is sent.
\<close>

definition Object_prototype :: "string list" where
  "Object_prototype =
     [''constructor'', ''__defineGetter__'', ''__defineSetter__'', ''hasOwnProperty'',
      ''__lookupGetter__'', ''__lookupSetter__'', ''isPrototypeOf'', ''propertyIsEnumerable'',
      ''toString'', ''valueOf'', ''__proto__'', ''toLocaleString'']"

fun group_context ::
  "context_row list \<Rightarrow> (string \<times> string list) list \<Rightarrow> exn + (string \<times> string list) list" where
  "group_context [] context = Inr context"
| "group_context (item # items) context =
     (case map_of context (contextKey item) of
        Some vs \<Rightarrow>
          group_context items
            (map (\<lambda>(k, vs). if k = contextKey item then (k, vs @ [contextValue item]) else (k, vs))
               context)
      | None \<Rightarrow>
          if contextKey item \<in> set Object_prototype then Inl TypeError
          else group_context items (context @ [(contextKey item, [contextValue item])]))"

definition get_profile :: "nat \<Rightarrow> db \<Rightarrow> result" where
  "get_profile userId d =
     (case group_context (context_of userId d) [] of
        Inl x \<Rightarrow> (Inr (500, ErrorBody ''Failed to fetch profile''), d, [])
      | Inr context \<Rightarrow>
          (case filter (\<lambda>u. user_id u = userId) (users d) of
             [] \<Rightarrow> (Inr (500, ErrorBody ''Failed to fetch profile''), d, [])
           | user # _ \<Rightarrow>
               (Inr (200, ProfileBody (user_id user) (user_email user) (user_name user) context),
                d, [])))"

section \<open>PUT /profile\<close>

text \<open>
  \<^verbatim>\<open>Object.entries\<close>: the own properties of an object, the indexed elements of an
  array or a string, nothing for a number or a boolean, a TypeError for \<^verbatim>\<open>null\<close>.
\<close>

fun show_nat :: "nat \<Rightarrow> string" where
  "show_nat n =
     (if n < 10 then [char_of (48 + n)] else show_nat (n div 10) @ [char_of (48 + n mod 10)])"

declare show_nat.simps [simp del]

definition Object_entries :: "json \<Rightarrow> exn + (string \<times> json) list" where
  "Object_entries v =
     (case v of
        JNull \<Rightarrow> Inl TypeError
      | JObj fs \<Rightarrow> Inr fs
      | JArr xs \<Rightarrow> Inr (zip (map show_nat [0 ..< length xs]) xs)
      | JStr s \<Rightarrow> Inr (zip (map show_nat [0 ..< length s]) (map (\<lambda>c. JStr [c]) s))
      | _ \<Rightarrow> Inr [])"

text \<open>The loop that fills \<^verbatim>\<open>contextEntries\<close>: array elements as they are, anything else through \<^verbatim>\<open>String\<close>.\<close>

fun contextEntries :: "nat \<Rightarrow> (string \<times> json) list \<Rightarrow> exn + (nat \<times> string \<times> json) list" where
  "contextEntries userId [] = Inr []"
| "contextEntries userId ((key, JArr vs) # rest) =
     (case contextEntries userId rest of
        Inl x \<Rightarrow> Inl x
      | Inr r \<Rightarrow> Inr (map (\<lambda>v. (userId, key, v)) vs @ r))"
| "contextEntries userId ((key, v) # rest) =
     (case js_String v of
        Inl x \<Rightarrow> Inl x
      | Inr s \<Rightarrow>
          (case contextEntries userId rest of
             Inl x \<Rightarrow> Inl x
           | Inr r \<Rightarrow> Inr ((userId, key, JStr s) # r)))"

definition bind_entry :: "env \<Rightarrow> nat \<times> string \<times> json \<Rightarrow> exn + nat \<times> string \<times> string" where
  "bind_entry e v =
     (case notNull (bind_text e (Some (snd (snd v)))) of
        Inl x \<Rightarrow> Inl x
      | Inr s \<Rightarrow> Inr (fst v, fst (snd v), s))"

definition put_profile_try :: "env \<Rightarrow> string \<Rightarrow> nat \<Rightarrow> json \<Rightarrow> db \<Rightarrow> (exn + response) \<times> db" where
  "put_profile_try e now userId contextUpdates d =
     (let d1 = delete_context userId d in
      case Object_entries contextUpdates of
        Inl x \<Rightarrow> (Inl x, d1)
      | Inr fs \<Rightarrow>
          (case contextEntries userId fs of
             Inl x \<Rightarrow> (Inl x, d1)
           | Inr entries \<Rightarrow>
               if length entries > 0
               then (case collect (map (bind_entry e) entries) of
                       Inl x \<Rightarrow> (Inl x, d1)
                     | Inr vs \<Rightarrow>
                         (case insert_context now vs d1 of
                            Inl x \<Rightarrow> (Inl x, d1)
                          | Inr d2 \<Rightarrow> (Inr (200, SuccessBody True ''Profile updated successfully''), d2)))
               else (Inr (200, SuccessBody True ''Profile updated successfully''), d1)))"

definition put_profile :: "env \<Rightarrow> string \<Rightarrow> nat \<Rightarrow> json \<Rightarrow> db \<Rightarrow> result" where
  "put_profile e now userId contextUpdates d =
     (case put_profile_try e now userId contextUpdates d of
        (Inl x, d') \<Rightarrow> (Inr (500, ErrorBody ''Failed to update profile''), d', [])
      | (Inr r, d') \<Rightarrow> (Inr r, d', []))"

section \<open>The application\<close>

text \<open>
  A request: the route, the \<^verbatim>\<open>Authorization\<close> header where the route is behind the
  middleware, the query parameters, and the body, \<open>None\<close> when it is not JSON
  (\<^verbatim>\<open>c.req.json()\<close> then throws before the handler does anything else). It arrives with
  the clock's reading and meets the environment of that moment. The route
  \<^verbatim>\<open>/openapi.json\<close> answers with the document the library builds from the title and the
  version; the explorer mounted under \<^verbatim>\<open>/fp\<close> is the library's own and has no handler
  in the repository.
\<close>

datatype request =
    GetRoot
  | GetOpenAPI
  | PostLogin "json option"
  | PostEntries "string option" "json option"
  | GetEntries "string option" "string option" "string option"
  | GetProfile "string option"
  | PutProfile "string option" "json option"

definition with_json :: "json option \<Rightarrow> db \<Rightarrow> (json \<Rightarrow> result) \<Rightarrow> result" where
  "with_json body d k = (case body of None \<Rightarrow> (Inl SyntaxError, d, []) | Some b \<Rightarrow> k b)"

fun app :: "env \<Rightarrow> string \<Rightarrow> request \<Rightarrow> db \<Rightarrow> result" where
  "app e now GetRoot d = (Inr (200, TextBody ''Personal Happiness Assistant API''), d, [])"
| "app e now GetOpenAPI d =
     (Inr (200, OpenAPIBody ''Personal Happiness Assistant API'' ''1.0.0''), d, [])"
| "app e now (PostLogin body) d = with_json body d (\<lambda>b. login e now b d)"
| "app e now (PostEntries auth body) d =
     authMiddleware e auth d (\<lambda>userId. with_json body d (\<lambda>b. post_entries e now userId b d))"
| "app e now (GetEntries auth limit offset) d =
     authMiddleware e auth d (\<lambda>userId. get_entries e userId limit offset d)"
| "app e now (GetProfile auth) d = authMiddleware e auth d (\<lambda>userId. get_profile userId d)"
| "app e now (PutProfile auth body) d =
     authMiddleware e auth d (\<lambda>userId. with_json body d (\<lambda>b. put_profile e now userId b d))"

text \<open>The database after a sequence of requests, each with its environment and clock reading.\<close>

fun run :: "(env \<times> string \<times> request) list \<Rightarrow> db \<Rightarrow> db" where
  "run [] d = d"
| "run ((e, now, r) # rs) d = run rs (fst (snd (app e now r d)))"

section \<open>The words of the specification\<close>

text \<open>
  These are not code of the program. They name what the specification talks about, so
  that the theorems can say it: the display name a login stores, the facts a profile
  update submits, and the bodies whose values can all be stored.

  \<open>display_name\<close> follows \<^verbatim>\<open>name || null\<close> for a name that is absent or a string.
\<close>

definition display_name :: "json option \<Rightarrow> string option" where
  "display_name n = (case n of Some (JStr s) \<Rightarrow> (if s = [] then None else Some s) | _ \<Rightarrow> None)"

definition is_JStr :: "json \<Rightarrow> bool" where
  "is_JStr v = (case v of JStr s \<Rightarrow> True | _ \<Rightarrow> False)"

definition is_JArr :: "json \<Rightarrow> bool" where
  "is_JArr v = (case v of JArr vs \<Rightarrow> True | _ \<Rightarrow> False)"

definition the_JStr :: "json \<Rightarrow> string" where
  "the_JStr v = (case v of JStr s \<Rightarrow> s | _ \<Rightarrow> [])"

definition rendered :: "json \<Rightarrow> string" where
  "rendered v = (case js_String v of Inr s \<Rightarrow> s | Inl x \<Rightarrow> [])"

text \<open>
  A value of a profile update can be stored when it is an array of strings, or not an
  array and \<^verbatim>\<open>String\<close> accepts it. The submitted facts are one pair per array element
  and one pair per other value, in the order of the body.
\<close>

definition storable_value :: "json \<Rightarrow> bool" where
  "storable_value v =
     (case v of
        JArr vs \<Rightarrow> list_all is_JStr vs
      | _ \<Rightarrow> (case js_String v of Inr s \<Rightarrow> True | Inl x \<Rightarrow> False))"

definition storable :: "(string \<times> json) list \<Rightarrow> bool" where
  "storable fs = list_all (\<lambda>f. storable_value (snd f)) fs"

definition submitted_value :: "string \<times> json \<Rightarrow> (string \<times> string) list" where
  "submitted_value f =
     (case snd f of JArr vs \<Rightarrow> map (\<lambda>v. (fst f, the_JStr v)) vs | v \<Rightarrow> [(fst f, rendered v)])"

definition submitted :: "(string \<times> json) list \<Rightarrow> (string \<times> string) list" where
  "submitted fs = concat (map submitted_value fs)"

text \<open>
  A submission has no content when it has no JSON body, or its body is \<^verbatim>\<open>null\<close>, or
  the body's \<open>content\<close> is absent or falsy.
\<close>

definition no_content :: "json option \<Rightarrow> bool" where
  "no_content body =
     (case body of
        None \<Rightarrow> True
      | Some v \<Rightarrow> (case js_get (Some v) ''content'' of Inl x \<Rightarrow> True | Inr c \<Rightarrow> falsy c))"

text \<open>The fact a row stores, and the values a list of facts has for a key, in order.\<close>

definition fact_of :: "context_row \<Rightarrow> string \<times> string" where
  "fact_of r = (contextKey r, contextValue r)"

definition values_of :: "string \<Rightarrow> (string \<times> string) list \<Rightarrow> string list" where
  "values_of k facts = map snd (filter (\<lambda>p. fst p = k) facts)"

section \<open>Sample data\<close>

text \<open>
  One environment, one database and a few requests on which the theorems below are
  instantiated: two users, the first with six entries and two stored facts, a completion
  service that answers every prompt with one text block, and a driver that refuses
  whatever the model leaves to it.
\<close>

definition reply :: "string \<Rightarrow> json" where
  "reply t = JObj [(''content'', JArr [JObj [(''type'', JStr ''text''), (''text'', JStr t)]])]"

definition demo_env :: env where
  "demo_env =
     \<lparr>JWT_SECRET = ''secret'',
      verify = (\<lambda>token secret. if token = ''t1'' \<and> secret = ''secret'' then Some 1 else None),
      sign = (\<lambda>userId secret. ''t'' @ show_nat userId),
      fetch = (\<lambda>prompt. Response True (Some (reply ''Rest.''))),
      bind_other = (\<lambda>v. Inl D1Error),
      page_other = (\<lambda>limit offset rows. Inl D1Error)\<rparr>"

definition demo_db :: db where
  "demo_db =
     \<lparr>users =
        [\<lparr>user_id = 1, user_email = ''a@b.c'', user_name = None,
          user_createdAt = ''1'', user_updatedAt = ''1''\<rparr>,
         \<lparr>user_id = 2, user_email = ''d@e.f'', user_name = Some ''Dee'',
          user_createdAt = ''1'', user_updatedAt = ''1''\<rparr>],
      userEntries =
        [\<lparr>entry_id = 1, entry_userId = 1, entry_content = ''sad'', entry_aiResponse = Some ''Walk.'',
          entry_createdAt = ''2''\<rparr>,
         \<lparr>entry_id = 2, entry_userId = 1, entry_content = ''tired'', entry_aiResponse = None,
          entry_createdAt = ''3''\<rparr>,
         \<lparr>entry_id = 3, entry_userId = 1, entry_content = ''ok'', entry_aiResponse = Some ''Good.'',
          entry_createdAt = ''4''\<rparr>,
         \<lparr>entry_id = 4, entry_userId = 2, entry_content = ''hm'', entry_aiResponse = Some ''Yes.'',
          entry_createdAt = ''4''\<rparr>,
         \<lparr>entry_id = 5, entry_userId = 1, entry_content = ''low'', entry_aiResponse = Some ''Tea.'',
          entry_createdAt = ''5''\<rparr>,
         \<lparr>entry_id = 6, entry_userId = 1, entry_content = ''up'', entry_aiResponse = Some ''Nice.'',
          entry_createdAt = ''6''\<rparr>,
         \<lparr>entry_id = 7, entry_userId = 1, entry_content = ''meh'', entry_aiResponse = Some ''Nap.'',
          entry_createdAt = ''7''\<rparr>],
      userContext =
        [\<lparr>context_id = 1, context_userId = 1, contextKey = ''goal'', contextValue = ''sleep'',
          context_createdAt = ''1'', context_updatedAt = ''1''\<rparr>,
         \<lparr>context_id = 2, context_userId = 1, contextKey = ''mood'', contextValue = ''calm'',
          context_createdAt = ''1'', context_updatedAt = ''1''\<rparr>],
      seq_users = 2, seq_userEntries = 7, seq_userContext = 2\<rparr>"

definition demo_requests :: "(env \<times> string \<times> request) list" where
  "demo_requests =
     [(demo_env, ''8'', PostEntries (Some ''Bearer t1'') (Some (JObj [(''content'', JStr ''hi'')]))),
      (demo_env, ''9'', PutProfile (Some ''Bearer t1'') (Some (JObj [(''mood'', JArr [JStr ''calm''])]))),
      (demo_env, ''9'', PostLogin (Some (JObj [(''email'', JStr ''x@y.z'')])))]"

text \<open>
  Two more completion services: one that answers with a status that is not a success,
  and one whose first content block carries no text.
\<close>

definition failing_env :: env where
  "failing_env =
     demo_env\<lparr>fetch := (\<lambda>prompt. Response False (Some (JObj [(''error'', JStr ''overloaded'')])))\<rparr>"

definition textless_env :: env where
  "textless_env =
     demo_env\<lparr>fetch := (\<lambda>prompt. Response True
        (Some (JObj [(''content'', JArr [JObj [(''type'', JStr ''tool_use'')]])])))\<rparr>"

definition demo_entry :: json where
  "demo_entry = JObj [(''content'', JStr ''hi'')]"

text \<open>A login, the profile update of the specification's example, and one of scalars only.\<close>

definition demo_login :: json where
  "demo_login = JObj [(''email'', JStr ''x@y.z''), (''name'', JStr ''Ex'')]"

definition demo_profile :: "(string \<times> json) list" where
  "demo_profile = [(''mood'', JArr [JStr ''happy'', JStr ''calm'']), (''goal'', JStr ''sleep'')]"

definition demo_scalars :: "(string \<times> json) list" where
  "demo_scalars = [(''ok'', JBool True), (''x'', JNull), (''o'', JObj [(''a'', JNum ''1'')])]"

definition demo_many :: "(string \<times> json) list" where
  "demo_many = [(''tag'', JArr (replicate 34 (JStr ''t'')))]"

section \<open>The middleware\<close>

lemma authMiddleware_accepts:
  "startsWith h ''Bearer '' \<Longrightarrow> verify e (substring h 7) (JWT_SECRET e) = Some userId \<Longrightarrow>
   authMiddleware e (Some h) d next = next userId"
  by (auto simp: authMiddleware_def startsWith_def)

lemma authMiddleware_cases:
  "authMiddleware e auth d next = (Inl (HTTPException 401 ''Unauthorized''), d, [])
   \<or> authMiddleware e auth d next = (Inl (HTTPException 401 ''Invalid token''), d, [])
   \<or> (\<exists>userId. authMiddleware e auth d next = next userId)"
  by (auto simp: authMiddleware_def split: option.splits)

lemma demo_auth:
  "startsWith ''Bearer t1'' ''Bearer ''"
  "verify demo_env (substring ''Bearer t1'' 7) (JWT_SECRET demo_env) = Some 1"
  by (simp_all add: startsWith_def substring_def demo_env_def)

text \<open>
  C8, as the code has it. A request that fails authentication is answered with status
  401, the database untouched and the handler not run, whichever check failed; the
  message is \<^verbatim>\<open>Unauthorized\<close> when the header is missing or does not start with
  \<^verbatim>\<open>Bearer \<close>, and \<^verbatim>\<open>Invalid token\<close> when the token fails verification.
\<close>

theorem auth_failure_is_401:
  "authMiddleware e None d next = (Inl (HTTPException 401 ''Unauthorized''), d, [])
   \<and> (\<not> startsWith h ''Bearer '' \<longrightarrow>
        authMiddleware e (Some h) d next = (Inl (HTTPException 401 ''Unauthorized''), d, []))
   \<and> (startsWith h ''Bearer '' \<and> verify e (substring h 7) (JWT_SECRET e) = None \<longrightarrow>
        authMiddleware e (Some h) d next = (Inl (HTTPException 401 ''Invalid token''), d, []))"
  by (auto simp: authMiddleware_def startsWith_def)

theorem auth_failure_is_401_witness:
  "authMiddleware demo_env None demo_db (\<lambda>userId. get_profile userId demo_db)
     = (Inl (HTTPException 401 ''Unauthorized''), demo_db, [])
   \<and> \<not> startsWith ''Basic t1'' ''Bearer ''
   \<and> authMiddleware demo_env (Some ''Basic t1'') demo_db (\<lambda>userId. get_profile userId demo_db)
     = (Inl (HTTPException 401 ''Unauthorized''), demo_db, [])
   \<and> startsWith ''Bearer t2'' ''Bearer ''
   \<and> verify demo_env (substring ''Bearer t2'' 7) (JWT_SECRET demo_env) = None
   \<and> authMiddleware demo_env (Some ''Bearer t2'') demo_db (\<lambda>userId. get_profile userId demo_db)
     = (Inl (HTTPException 401 ''Invalid token''), demo_db, [])"
proof -
  have a: "\<not> startsWith ''Basic t1'' ''Bearer ''" by (simp add: startsWith_def)
  have b: "startsWith ''Bearer t2'' ''Bearer ''" by (simp add: startsWith_def)
  have c: "verify demo_env (substring ''Bearer t2'' 7) (JWT_SECRET demo_env) = None"
    by (simp add: demo_env_def substring_def)
  from auth_failure_is_401 [of demo_env demo_db "\<lambda>userId. get_profile userId demo_db" "''Basic t1''"]
       auth_failure_is_401 [of demo_env demo_db "\<lambda>userId. get_profile userId demo_db" "''Bearer t2''"]
       a b c
  show ?thesis by blast
qed

text \<open>
  C8, as the specification has it, fails: a missing header and a token that does not
  verify are told apart by the message of the 401 response.
\<close>

theorem auth_failure_messages_differ:
  "fst (app demo_env ''8'' (GetProfile None) demo_db) = Inl (HTTPException 401 ''Unauthorized'')
   \<and> fst (app demo_env ''8'' (GetProfile (Some ''Bearer t2'')) demo_db)
     = Inl (HTTPException 401 ''Invalid token'')
   \<and> HTTPException 401 ''Unauthorized'' \<noteq> HTTPException 401 ''Invalid token''"
  by (simp add: authMiddleware_def demo_env_def startsWith_def substring_def)

section \<open>Validation of a submitted entry\<close>

lemma post_entries_400:
  "fst (post_entries e now userId body d) = Inr (400, b) \<Longrightarrow>
   \<exists>content. js_get (Some body) ''content'' = Inr content \<and> falsy content"
  by (auto simp: post_entries_def post_entries_try_def Let_def
           split: sum.splits option.splits if_splits prod.splits)

lemma app_post_entries_400:
  assumes "fst (app e now (PostEntries auth body) d) = Inr (400, b)"
  shows "\<exists>v content. body = Some v \<and> js_get (Some v) ''content'' = Inr content \<and> falsy content"
proof -
  let ?next = "\<lambda>userId. with_json body d (\<lambda>v. post_entries e now userId v d)"
  from authMiddleware_cases [of e auth d ?next] assms
  obtain userId where "fst (?next userId) = Inr (400, b)" by auto
  then show ?thesis
    by (cases body) (auto simp: with_json_def dest: post_entries_400)
qed

lemma post_entries_no_content:
  "no_content (Some v) \<Longrightarrow> snd (post_entries e now u v d) = (d, [])"
  by (auto simp: no_content_def post_entries_def split: sum.splits option.splits)

text \<open>
  C5, as the code has it. A submission without content creates no row and calls no
  completion service, with any credential and any body or none. When the body is JSON
  other than \<^verbatim>\<open>null\<close> and its \<open>content\<close> is absent or falsy, an authenticated
  submission is answered with status 400 and the message \<^verbatim>\<open>Content is required\<close>, and
  the route gives status 400 in no other case. When there is no JSON body, or the body
  is \<^verbatim>\<open>null\<close>, reading the body throws before the validation and the exception leaves
  the handler.
\<close>

theorem empty_content_rejected:
  assumes "startsWith h ''Bearer ''" and "verify e (substring h 7) (JWT_SECRET e) = Some userId"
  shows "(js_get (Some body) ''content'' = Inr content \<and> falsy content \<longrightarrow>
            app e now (PostEntries (Some h) (Some body)) d
              = (Inr (400, ErrorBody ''Content is required''), d, []))
         \<and> app e now (PostEntries (Some h) None) d = (Inl SyntaxError, d, [])
         \<and> app e now (PostEntries (Some h) (Some JNull)) d = (Inl TypeError, d, [])
         \<and> (\<forall>auth' body'. no_content body' \<longrightarrow>
               snd (app e now (PostEntries auth' body') d) = (d, []))
         \<and> (\<forall>auth' body' d' b. fst (app e now (PostEntries auth' body') d') = Inr (400, b) \<longrightarrow>
              (\<exists>v c. body' = Some v \<and> js_get (Some v) ''content'' = Inr c \<and> falsy c))"
proof -
  have a: "authMiddleware e (Some h) d k = k userId" for k
    using assms by (rule authMiddleware_accepts)
  have 1: "app e now (PostEntries (Some h) (Some body)) d
              = (Inr (400, ErrorBody ''Content is required''), d, [])"
    if "js_get (Some body) ''content'' = Inr content \<and> falsy content"
    using that by (cases content) (simp_all add: a with_json_def post_entries_def)
  have 2: "app e now (PostEntries (Some h) None) d = (Inl SyntaxError, d, [])"
    by (simp add: a with_json_def)
  have 3: "app e now (PostEntries (Some h) (Some JNull)) d = (Inl TypeError, d, [])"
    by (simp add: a with_json_def post_entries_def)
  have 4: "snd (app e now (PostEntries auth' body') d) = (d, [])" if "no_content body'"
    for auth' body'
  proof -
    have "snd (with_json body' d (\<lambda>b. post_entries e now u b d)) = (d, [])" for u
      using that post_entries_no_content [of _ e now u d]
      by (cases body') (simp_all add: with_json_def)
    then show ?thesis
      using authMiddleware_cases [of e auth' d "\<lambda>u. with_json body' d (\<lambda>b. post_entries e now u b d)"]
      by auto
  qed
  from 1 2 3 4 app_post_entries_400 show ?thesis by blast
qed

theorem empty_content_rejected_witness:
  "startsWith ''Bearer t1'' ''Bearer ''
   \<and> verify demo_env (substring ''Bearer t1'' 7) (JWT_SECRET demo_env) = Some 1
   \<and> js_get (Some (JObj [(''content'', JStr [])])) ''content'' = Inr (Some (JStr []))
   \<and> falsy (Some (JStr []))
   \<and> app demo_env ''8'' (PostEntries (Some ''Bearer t1'') (Some (JObj [(''content'', JStr [])]))) demo_db
       = (Inr (400, ErrorBody ''Content is required''), demo_db, [])
   \<and> no_content (Some (JObj []))
   \<and> snd (app demo_env ''8'' (PostEntries None (Some (JObj []))) demo_db) = (demo_db, [])
   \<and> app demo_env ''8'' (PostEntries (Some ''Bearer t1'') (Some (JObj []))) demo_db
       = (Inr (400, ErrorBody ''Content is required''), demo_db, [])"
proof -
  have c: "js_get (Some (JObj [(''content'', JStr [])])) ''content'' = Inr (Some (JStr []))"
    by simp
  have f: "falsy (Some (JStr []))" by simp
  have n: "no_content (Some (JObj []))" by (simp add: no_content_def)
  have c': "js_get (Some (JObj [])) ''content'' = Inr None \<and> falsy None" by simp
  note t = empty_content_rejected [OF demo_auth, where now = "''8''" and d = demo_db]
  from t [where body = "JObj [(''content'', JStr [])]" and content = "Some (JStr [])"] c f
  have 1: "app demo_env ''8'' (PostEntries (Some ''Bearer t1'') (Some (JObj [(''content'', JStr [])]))) demo_db
       = (Inr (400, ErrorBody ''Content is required''), demo_db, [])"
    by blast
  from t [where body = "JObj []" and content = None] c' n
  have 2: "snd (app demo_env ''8'' (PostEntries None (Some (JObj []))) demo_db) = (demo_db, [])"
    and 3: "app demo_env ''8'' (PostEntries (Some ''Bearer t1'') (Some (JObj []))) demo_db
       = (Inr (400, ErrorBody ''Content is required''), demo_db, [])"
    by blast+
  from demo_auth c f 1 n 2 3 show ?thesis by blast
qed

text \<open>
  C5, as the specification has it, fails for a submission with no JSON body or with the
  body \<^verbatim>\<open>null\<close>: the content is absent there too, but the body is read outside the
  \<^verbatim>\<open>try\<close>, so what answers is the exception, as for any failure nobody caught, and not
  the validation error.
\<close>

theorem null_body_escapes_validation:
  "no_content (Some JNull) \<and> no_content None
   \<and> fst (app demo_env ''8'' (PostEntries (Some ''Bearer t1'') (Some JNull)) demo_db) = Inl TypeError
   \<and> fst (app demo_env ''8'' (PostEntries (Some ''Bearer t1'') None) demo_db) = Inl SyntaxError"
  by (simp add: no_content_def authMiddleware_accepts [OF demo_auth] with_json_def post_entries_def)

section \<open>Entry rows are never touched again\<close>

lemma userEntries_add_context [simp]: "userEntries (add_context now v d) = userEntries d"
  by (simp add: add_context_def Let_def)

lemma userEntries_fold_add_context [simp]:
  "userEntries (fold (add_context now) vs d) = userEntries d"
  by (induction vs arbitrary: d) simp_all

lemma login_userEntries:
  "userEntries (fst (snd (login e now body d))) = userEntries d"
  by (auto simp: login_def login_try_def insert_user_def Let_def
           split: sum.splits option.splits list.splits if_splits prod.splits)

lemma post_entries_try_userEntries:
  "\<exists>ys. userEntries (fst (snd (post_entries_try e now userId content d))) = userEntries d @ ys"
  by (auto simp: post_entries_try_def insert_entry_def Let_def
           split: sum.splits option.splits if_splits prod.splits)

lemma post_entries_db_cases:
  "fst (snd (post_entries e now userId body d)) = d \<or>
   (\<exists>content. fst (snd (post_entries e now userId body d))
                = fst (snd (post_entries_try e now userId content d)))"
  by (auto simp: post_entries_def split: sum.splits option.splits if_splits prod.splits)
     (metis fst_conv snd_conv)+

lemma post_entries_userEntries:
  "\<exists>ys. userEntries (fst (snd (post_entries e now userId body d))) = userEntries d @ ys"
  using post_entries_db_cases [of e now userId body d] post_entries_try_userEntries [of e now userId _ d]
  by auto

lemma get_entries_db: "fst (snd (get_entries e userId limit offset d)) = d"
  by (simp add: get_entries_def split: sum.splits)

lemma get_profile_db: "fst (snd (get_profile userId d)) = d"
  by (simp add: get_profile_def split: sum.splits list.splits)

lemma put_profile_userEntries:
  "userEntries (fst (snd (put_profile e now userId body d))) = userEntries d"
  by (auto simp: put_profile_def put_profile_try_def insert_context_def delete_context_def Let_def
           split: sum.splits if_splits prod.splits)

lemma app_userEntries:
  "\<exists>ys. userEntries (fst (snd (app e now r d))) = userEntries d @ ys"
proof (cases r)
  case GetRoot
  then show ?thesis by simp
next
  case GetOpenAPI
  then show ?thesis by simp
next
  case (PostLogin body)
  then show ?thesis
    by (cases body) (simp_all add: with_json_def login_userEntries)
next
  case (PostEntries auth body)
  have "\<exists>ys. userEntries (fst (snd (with_json body d (\<lambda>b. post_entries e now userId b d))))
              = userEntries d @ ys" for userId
    using post_entries_userEntries [of e now userId _ d] by (cases body) (auto simp: with_json_def)
  with PostEntries show ?thesis
    using authMiddleware_cases [of e auth d "\<lambda>userId. with_json body d (\<lambda>b. post_entries e now userId b d)"]
    by auto
next
  case (GetEntries auth limit offset)
  then show ?thesis
    using authMiddleware_cases [of e auth d "\<lambda>userId. get_entries e userId limit offset d"]
    by (auto simp: get_entries_db)
next
  case (GetProfile auth)
  then show ?thesis
    using authMiddleware_cases [of e auth d "\<lambda>userId. get_profile userId d"]
    by (auto simp: get_profile_db)
next
  case (PutProfile auth body)
  have "userEntries (fst (snd (with_json body d (\<lambda>b. put_profile e now userId b d)))) = userEntries d"
    for userId
    by (cases body) (simp_all add: with_json_def put_profile_userEntries)
  with PutProfile show ?thesis
    using authMiddleware_cases [of e auth d "\<lambda>userId. with_json body d (\<lambda>b. put_profile e now userId b d)"]
    by auto
qed

lemma run_append: "run (rs @ rs') d = run rs' (run rs d)"
  by (induction rs arbitrary: d) auto

lemma run_userEntries: "\<exists>ys. userEntries (run rs d) = userEntries d @ ys"
proof (induction rs arbitrary: d)
  case Nil
  show ?case by simp
next
  case (Cons r rs)
  obtain e now q where r: "r = (e, now, q)" by (cases r)
  obtain ys where ys: "userEntries (fst (snd (app e now q d))) = userEntries d @ ys"
    using app_userEntries by blast
  obtain zs where "userEntries (run rs (fst (snd (app e now q d))))
                     = userEntries (fst (snd (app e now q d))) @ zs"
    using Cons.IH by blast
  with r ys show ?case by simp
qed

text \<open>
  C9. Whatever requests arrive, in whatever environments, the entry table after them
  is the entry table before them followed by the rows inserted since: no request
  changes, moves or removes a row that is there. This holds from every intermediate
  state of a run onwards.
\<close>

theorem entries_immutable:
  "\<exists>ys. userEntries (run (rs @ rs') d) = userEntries (run rs d) @ ys"
  by (simp add: run_append run_userEntries)

theorem entries_immutable_witness:
  "userEntries (run (take 1 demo_requests) demo_db)
     = userEntries demo_db @
       [\<lparr>entry_id = 8, entry_userId = 1, entry_content = ''hi'', entry_aiResponse = Some ''Rest.'',
         entry_createdAt = ''8''\<rparr>]
   \<and> (\<exists>ys. userEntries (run (take 1 demo_requests @ drop 1 demo_requests) demo_db)
              = userEntries (run (take 1 demo_requests) demo_db) @ ys)"
proof -
  have "userEntries (run (take 1 demo_requests) demo_db)
          = userEntries demo_db @
            [\<lparr>entry_id = 8, entry_userId = 1, entry_content = ''hi'',
              entry_aiResponse = Some ''Rest.'', entry_createdAt = ''8''\<rparr>]"
    by code_simp
  with entries_immutable [of "take 1 demo_requests" "drop 1 demo_requests" demo_db]
  show ?thesis by blast
qed

section \<open>The entry pipeline\<close>

lemma demo_user: "1 \<in> set (map user_id (users demo_db))"
  by (simp add: demo_db_def)

text \<open>
  C1. An authenticated user, present in the user table, submits a non-empty text; the
  completion service answers with a success status and a JSON body whose \<open>content\<close>
  array starts with a block carrying the text \<open>t\<close>. Then the entry table grows by
  exactly one row, holding the submitted text, \<open>t\<close> as its response and the next row
  id; nothing else in the database changes but that table's counter; the response has
  status 200 and carries that row under \<open>entry\<close> and \<open>t\<close> under \<open>recommendation\<close>; and
  the service was called once, with the assembled prompt.
\<close>

theorem submission_stored:
  assumes "startsWith h ''Bearer ''" and "verify e (substring h 7) (JWT_SECRET e) = Some userId"
    and "userId \<in> set (map user_id (users d))"
    and "js_get (Some body) ''content'' = Inr (Some (JStr c))" and "c \<noteq> []"
    and "fetch e (prompt_of userId d c) = Response True (Some aiData)"
    and "js_get (Some aiData) ''content'' = Inr (Some (JArr (block # blocks)))"
    and "js_get (Some block) ''text'' = Inr (Some (JStr t))"
  shows "let newEntry = \<lparr>entry_id = next_id (seq_userEntries d) (map entry_id (userEntries d)),
                         entry_userId = userId, entry_content = c, entry_aiResponse = Some t,
                         entry_createdAt = now\<rparr>
         in app e now (PostEntries (Some h) (Some body)) d
              = (Inr (200, EntryBody newEntry (Some (JStr t))),
                 d\<lparr>userEntries := userEntries d @ [newEntry], seq_userEntries := entry_id newEntry\<rparr>,
                 [prompt_of userId d c])"
proof -
  have "recommendation_of aiData = Inr (Some (JStr t))"
    using assms(7,8) by (simp add: recommendation_of_def)
  then have "completion e (prompt_of userId d c) = Inr (Some (JStr t))"
    using assms(6) by (simp add: completion_def)
  then show ?thesis
    using assms(1-5)
    by (simp add: authMiddleware_accepts with_json_def post_entries_def post_entries_try_def
                  insert_entry_def Let_def)
qed

theorem submission_stored_witness:
  "startsWith ''Bearer t1'' ''Bearer ''
   \<and> verify demo_env (substring ''Bearer t1'' 7) (JWT_SECRET demo_env) = Some 1
   \<and> 1 \<in> set (map user_id (users demo_db))
   \<and> js_get (Some demo_entry) ''content'' = Inr (Some (JStr ''hi'')) \<and> ''hi'' \<noteq> []
   \<and> fetch demo_env (prompt_of 1 demo_db ''hi'') = Response True (Some (reply ''Rest.''))
   \<and> js_get (Some (reply ''Rest.'')) ''content''
       = Inr (Some (JArr (JObj [(''type'', JStr ''text''), (''text'', JStr ''Rest.'')] # [])))
   \<and> js_get (Some (JObj [(''type'', JStr ''text''), (''text'', JStr ''Rest.'')])) ''text''
       = Inr (Some (JStr ''Rest.''))
   \<and> app demo_env ''8'' (PostEntries (Some ''Bearer t1'') (Some demo_entry)) demo_db
       = (Inr (200, EntryBody \<lparr>entry_id = 8, entry_userId = 1, entry_content = ''hi'',
                              entry_aiResponse = Some ''Rest.'', entry_createdAt = ''8''\<rparr>
                     (Some (JStr ''Rest.''))),
          demo_db\<lparr>userEntries := userEntries demo_db @
                     [\<lparr>entry_id = 8, entry_userId = 1, entry_content = ''hi'',
                       entry_aiResponse = Some ''Rest.'', entry_createdAt = ''8''\<rparr>],
                   seq_userEntries := 8\<rparr>,
          [prompt_of 1 demo_db ''hi''])"
proof -
  have c: "js_get (Some demo_entry) ''content'' = Inr (Some (JStr ''hi''))"
    by (simp add: demo_entry_def)
  have n: "''hi'' \<noteq> []" by simp
  have f: "fetch demo_env (prompt_of 1 demo_db ''hi'') = Response True (Some (reply ''Rest.''))"
    by (simp add: demo_env_def)
  have r: "js_get (Some (reply ''Rest.'')) ''content''
             = Inr (Some (JArr (JObj [(''type'', JStr ''text''), (''text'', JStr ''Rest.'')] # [])))"
    by (simp add: reply_def)
  have t: "js_get (Some (JObj [(''type'', JStr ''text''), (''text'', JStr ''Rest.'')])) ''text''
             = Inr (Some (JStr ''Rest.''))"
    by simp
  have i: "next_id (seq_userEntries demo_db) (map entry_id (userEntries demo_db)) = 8"
    by (simp add: next_id_def demo_db_def)
  from submission_stored [OF demo_auth demo_user c n f r t, of "''8''"]
  have "app demo_env ''8'' (PostEntries (Some ''Bearer t1'') (Some demo_entry)) demo_db
       = (Inr (200, EntryBody \<lparr>entry_id = 8, entry_userId = 1, entry_content = ''hi'',
                              entry_aiResponse = Some ''Rest.'', entry_createdAt = ''8''\<rparr>
                     (Some (JStr ''Rest.''))),
          demo_db\<lparr>userEntries := userEntries demo_db @
                     [\<lparr>entry_id = 8, entry_userId = 1, entry_content = ''hi'',
                       entry_aiResponse = Some ''Rest.'', entry_createdAt = ''8''\<rparr>],
                   seq_userEntries := 8\<rparr>,
          [prompt_of 1 demo_db ''hi''])"
    by (simp add: i Let_def)
  with demo_auth demo_user c n f r t show ?thesis by blast
qed

text \<open>
  Reading \<^verbatim>\<open>aiData.content[0].text\<close> throws exactly when the body is \<^verbatim>\<open>null\<close>, or its
  \<open>content\<close> is missing or \<^verbatim>\<open>null\<close>, or \<open>content\<close> has no first element or a \<^verbatim>\<open>null\<close>
  one. A first element without a \<open>text\<close> yields \<^verbatim>\<open>undefined\<close> and no exception.
\<close>

lemma recommendation_of_throws:
  "(\<exists>y. recommendation_of aiData = Inl y) =
   (aiData = JNull \<or>
    (\<exists>c. js_get (Some aiData) ''content'' = Inr c \<and>
         (c = None \<or> c = Some JNull \<or>
          (\<exists>b. js_get c ''0'' = Inr b \<and> (b = None \<or> b = Some JNull)))))"
proof -
  have get: "(\<exists>y. js_get v k = Inl y) = (v = None \<or> v = Some JNull)" for v k
    by (cases "(v, k)" rule: js_get.cases) auto
  have ok: "js_get (Some aiData) ''content'' = Inl y \<Longrightarrow> aiData = JNull" for y
    using get [of "Some aiData" "''content''"] by auto
  show ?thesis
  proof (cases "js_get (Some aiData) ''content''")
    case (Inl y)
    then show ?thesis using ok by (auto simp: recommendation_of_def)
  next
    case c: (Inr c)
    then have nn: "aiData \<noteq> JNull" by auto
    show ?thesis
    proof (cases "js_get c ''0''")
      case (Inl y)
      then show ?thesis using c nn get [of c "''0''"] by (auto simp: recommendation_of_def)
    next
      case (Inr b)
      then show ?thesis using c nn get [of c "''0''"] get [of b "''text''"]
        by (auto simp: recommendation_of_def)
    qed
  qed
qed

lemma post_entries_completion_fails:
  assumes "js_get (Some body) ''content'' = Inr (Some content)"
    and "\<not> falsy (Some content)"
    and "js_String content = Inr c"
    and "completion e (prompt_of userId d c) = Inl x"
  shows "post_entries e now userId body d
           = (Inr (500, ErrorBody ''Failed to generate recommendation''), d, [prompt_of userId d c])"
  using assms by (simp add: post_entries_def post_entries_try_def Let_def)

lemma completion_fails:
  "(\<exists>x. completion e p = Inl x) =
   (fetch e p = Rejected \<or> (\<exists>data. fetch e p = Response False data)
    \<or> fetch e p = Response True None
    \<or> (\<exists>aiData y. fetch e p = Response True (Some aiData) \<and> recommendation_of aiData = Inl y))"
  by (auto simp: completion_def split: fetch_result.splits option.splits)

text \<open>
  C2, as the code has it. When the call to the completion service fails, that is,
  \<^verbatim>\<open>fetch\<close> rejects, or the status is not a success, or the body is not JSON, or
  reading \<^verbatim>\<open>content[0].text\<close> from the body throws, then the response has status 500,
  the database is the one before, and the service was called exactly once.
\<close>

theorem failed_completion_stores_nothing:
  assumes "startsWith h ''Bearer ''" and "verify e (substring h 7) (JWT_SECRET e) = Some userId"
    and "js_get (Some body) ''content'' = Inr (Some content)"
    and "\<not> falsy (Some content)"
    and "js_String content = Inr c"
    and "fetch e (prompt_of userId d c) = Rejected
         \<or> (\<exists>data. fetch e (prompt_of userId d c) = Response False data)
         \<or> fetch e (prompt_of userId d c) = Response True None
         \<or> (\<exists>aiData y. fetch e (prompt_of userId d c) = Response True (Some aiData)
                \<and> recommendation_of aiData = Inl y)"
  shows "app e now (PostEntries (Some h) (Some body)) d
           = (Inr (500, ErrorBody ''Failed to generate recommendation''), d, [prompt_of userId d c])"
proof -
  from assms(6) obtain x where "completion e (prompt_of userId d c) = Inl x"
    using completion_fails [of e "prompt_of userId d c"] by blast
  with assms(3-5) have "post_entries e now userId body d
           = (Inr (500, ErrorBody ''Failed to generate recommendation''), d, [prompt_of userId d c])"
    by (rule post_entries_completion_fails)
  with assms(1,2) show ?thesis by (simp add: authMiddleware_accepts with_json_def)
qed

theorem failed_completion_stores_nothing_witness:
  "startsWith ''Bearer t1'' ''Bearer ''
   \<and> verify failing_env (substring ''Bearer t1'' 7) (JWT_SECRET failing_env) = Some 1
   \<and> js_get (Some demo_entry) ''content'' = Inr (Some (JStr ''hi''))
   \<and> \<not> falsy (Some (JStr ''hi''))
   \<and> js_String (JStr ''hi'') = Inr ''hi''
   \<and> fetch failing_env (prompt_of 1 demo_db ''hi'')
       = Response False (Some (JObj [(''error'', JStr ''overloaded'')]))
   \<and> app failing_env ''8'' (PostEntries (Some ''Bearer t1'') (Some demo_entry)) demo_db
       = (Inr (500, ErrorBody ''Failed to generate recommendation''), demo_db,
          [prompt_of 1 demo_db ''hi''])"
proof -
  have a: "startsWith ''Bearer t1'' ''Bearer ''" by (simp add: startsWith_def)
  have v: "verify failing_env (substring ''Bearer t1'' 7) (JWT_SECRET failing_env) = Some 1"
    by (simp add: failing_env_def demo_env_def substring_def)
  have c: "js_get (Some demo_entry) ''content'' = Inr (Some (JStr ''hi''))"
    by (simp add: demo_entry_def)
  have n: "\<not> falsy (Some (JStr ''hi''))" by simp
  have s: "js_String (JStr ''hi'') = Inr ''hi''" by simp
  have f: "fetch failing_env (prompt_of 1 demo_db ''hi'')
             = Response False (Some (JObj [(''error'', JStr ''overloaded'')]))"
    by (simp add: failing_env_def)
  then have "fetch failing_env (prompt_of 1 demo_db ''hi'') = Rejected
         \<or> (\<exists>data. fetch failing_env (prompt_of 1 demo_db ''hi'') = Response False data)
         \<or> fetch failing_env (prompt_of 1 demo_db ''hi'') = Response True None
         \<or> (\<exists>aiData y. fetch failing_env (prompt_of 1 demo_db ''hi'') = Response True (Some aiData)
                \<and> recommendation_of aiData = Inl y)"
    by blast
  from failed_completion_stores_nothing [OF a v c n s this, of "''8''"] a v c n s f
  show ?thesis by blast
qed

text \<open>
  C2, as the specification has it, fails for one kind of malformed body: a reply whose
  first content block has no \<open>text\<close> is not treated as a failure. The entry is stored
  with a \<^verbatim>\<open>NULL\<close> response and the request is answered with status 200.
\<close>

theorem textless_reply_is_stored:
  "fst (app textless_env ''8'' (PostEntries (Some ''Bearer t1'') (Some demo_entry)) demo_db)
     = Inr (200, EntryBody \<lparr>entry_id = 8, entry_userId = 1, entry_content = ''hi'',
                          entry_aiResponse = None, entry_createdAt = ''8''\<rparr> None)
   \<and> userEntries (fst (snd (app textless_env ''8'' (PostEntries (Some ''Bearer t1'') (Some demo_entry)) demo_db)))
     = userEntries demo_db @ [\<lparr>entry_id = 8, entry_userId = 1, entry_content = ''hi'',
                          entry_aiResponse = None, entry_createdAt = ''8''\<rparr>]"
  by code_simp

section \<open>Newest first\<close>

lemma set_insert_desc [simp]: "set (insert_desc x ys) = insert x (set ys)"
  by (induction ys) auto

lemma mset_insert_desc [simp]: "mset (insert_desc x ys) = add_mset x (mset ys)"
  by (induction ys) auto

lemma sorted_insert_desc:
  "sorted_wrt (\<lambda>a b. entry_createdAt b \<le> entry_createdAt a) ys \<Longrightarrow>
   sorted_wrt (\<lambda>a b. entry_createdAt b \<le> entry_createdAt a) (insert_desc x ys)"
  by (induction ys) auto

lemma mset_orderBy_desc [simp]: "mset (orderBy_desc xs) = mset xs"
  by (induction xs) (simp_all add: orderBy_desc_def)

lemma sorted_orderBy_desc:
  "sorted_wrt (\<lambda>a b. entry_createdAt b \<le> entry_createdAt a) (orderBy_desc xs)"
  by (induction xs) (simp_all add: orderBy_desc_def sorted_insert_desc)

lemma length_orderBy_desc [simp]: "length (orderBy_desc xs) = length xs"
  using mset_orderBy_desc [of xs] by (metis size_mset)

lemma orderBy_desc_Nil [simp]: "(orderBy_desc xs = []) = (xs = [])"
  using length_orderBy_desc [of xs] by (metis length_0_conv)

lemma js_join_nonempty: "xs \<noteq> [] \<Longrightarrow> hd xs \<noteq> [] \<Longrightarrow> js_join sep xs \<noteq> []"
  by (cases "(sep, xs)" rule: js_join.cases) auto

lemma sorted_wrt_take_drop:
  "sorted_wrt P xs \<Longrightarrow> \<forall>x \<in> set (take n xs). \<forall>y \<in> set (drop n xs). P x y"
  by (metis append_take_drop_id sorted_wrt_append)

lemma p20: "parseInt ''20'' = Some 20" by code_simp
lemma p0: "parseInt ''0'' = Some 0" by code_simp
lemma p2: "parseInt ''2'' = Some 2" by code_simp
lemma p1: "parseInt ''1'' = Some 1" by code_simp


section \<open>The assembled context\<close>

lemma contextString_Nil: "(contextString facts = []) = (facts = [])"
proof (cases facts)
  case Nil
  then show ?thesis by (simp add: contextString_def)
next
  case (Cons f fs)
  then have "js_join '', '' (map (\<lambda>ctx. contextKey ctx @ '': '' @ contextValue ctx) facts) \<noteq> []"
    by (intro js_join_nonempty) simp_all
  with Cons show ?thesis by (simp add: contextString_def)
qed

lemma historyString_Nil: "(historyString rows = []) = (rows = [])"
proof (cases rows)
  case Nil
  then show ?thesis by (simp add: historyString_def)
next
  case (Cons r rs)
  then have "js_join [CHR 0x0A, CHR 0x0A] (map historyBlock rows) \<noteq> []"
    by (intro js_join_nonempty) (simp_all add: historyBlock_def)
  with Cons show ?thesis by (simp add: historyString_def)
qed

lemma js_join_Cons: "js_join sep (x # xs) = x @ concat (map (\<lambda>y. sep @ y) xs)"
  by (induction xs arbitrary: x) simp_all

lemma post_entries_try_calls:
  "snd (snd (post_entries_try e now userId (JStr c) d)) = [prompt_of userId d c]"
  by (simp add: post_entries_try_def Let_def split: sum.splits prod.splits)

text \<open>
  C3. The prompt sent for a submitted text is the fixed preamble, the line
  \<^verbatim>\<open>User Context: \<close> with the context part, the heading of the history with the
  history part, the submitted text in quotes, and the fixed request. The context part
  is the user's facts, all of them, each as \<open>key: value\<close>, separated by a comma and a
  space, or \<^verbatim>\<open>No specific context available\<close> when the user has no fact. The history
  part is one block \<^verbatim>\<open>User: <content>\<close>, newline, \<^verbatim>\<open>AI: <aiResponse>\<close> per selected
  entry, the blocks separated by an empty line, or \<^verbatim>\<open>No previous conversations\<close> when the
  user has no entry. The selected entries are \<open>min M 5\<close> of the user's \<open>M\<close> entries,
  newest first, and no entry left out is newer than a selected one.
\<close>

theorem prompt_context:
  "(let facts = filter (\<lambda>r. context_userId r = userId) (userContext d);
        mine = filter (\<lambda>r. entry_userId r = userId) (userEntries d);
        recent = recentEntries userId d;
        fact = (\<lambda>ctx. contextKey ctx @ '': '' @ contextValue ctx);
        block = (\<lambda>entry. ''User: '' @ entry_content entry @ [CHR 0x0A] @ ''AI: '' @
                           (case entry_aiResponse entry of None \<Rightarrow> ''null'' | Some a \<Rightarrow> a))
    in prompt_of userId d content
         = ''You are a personal well-being assistant focused on helping people become happier. ''
           @ [CHR 0x0A, CHR 0x0A]
           @ ''User Context: ''
           @ (if facts = [] then ''No specific context available''
              else fact (hd facts) @ concat (map (\<lambda>f. '', '' @ fact f) (tl facts)))
           @ [CHR 0x0A, CHR 0x0A]
           @ ''Recent conversation history:'' @ [CHR 0x0A]
           @ (if mine = [] then ''No previous conversations''
              else block (hd recent) @ concat (map (\<lambda>b. [CHR 0x0A, CHR 0x0A] @ block b) (tl recent)))
           @ [CHR 0x0A, CHR 0x0A]
           @ ''Current user input: '' @ [CHR 0x22] @ content @ [CHR 0x22]
           @ [CHR 0x0A, CHR 0x0A]
           @ ''Please provide personalized, actionable advice to help this person improve their well-being and happiness. Be empathetic, specific, and solution-focused. Consider their unique circumstances and history.''
       \<and> length recent = min (length mine) 5
       \<and> newest_first recent
       \<and> (\<exists>older. mset (recent @ older) = mset mine
              \<and> (\<forall>x \<in> set recent. \<forall>y \<in> set older. entry_createdAt y \<le> entry_createdAt x))
       \<and> snd (snd (post_entries_try e now userId (JStr content) d)) = [prompt_of userId d content])"
proof -
  let ?facts = "filter (\<lambda>r. context_userId r = userId) (userContext d)"
  let ?mine = "filter (\<lambda>r. entry_userId r = userId) (userEntries d)"
  let ?recent = "recentEntries userId d"
  let ?fact = "\<lambda>ctx. contextKey ctx @ '': '' @ contextValue ctx"
  let ?block = "\<lambda>entry. ''User: '' @ entry_content entry @ [CHR 0x0A] @ ''AI: '' @
                           (case entry_aiResponse entry of None \<Rightarrow> ''null'' | Some a \<Rightarrow> a)"
  let ?s = "entries_of userId d"
  have s: "newest_first ?s" by (simp add: entries_of_def sorted_orderBy_desc)
  have m: "mset ?s = mset ?mine" by (simp add: entries_of_def)
  have l: "length ?s = length ?mine" by (simp add: entries_of_def)
  have e: "(?recent = []) = (?mine = [])"
    using l by (cases ?s) (auto simp: recentEntries_def)
  have c: "or_else (contextString (context_of userId d)) ''No specific context available''
     = (if ?facts = [] then ''No specific context available''
        else ?fact (hd ?facts) @ concat (map (\<lambda>f. '', '' @ ?fact f) (tl ?facts)))"
  proof (cases ?facts)
    case Nil
    then show ?thesis by (simp add: or_else_def contextString_def context_of_def)
  next
    case (Cons f fs)
    then have "contextString (context_of userId d) \<noteq> []"
      using contextString_Nil [of "context_of userId d"] by (simp add: context_of_def)
    with Cons show ?thesis
      by (simp add: or_else_def contextString_def context_of_def js_join_Cons comp_def)
  qed
  have h: "or_else (historyString ?recent) ''No previous conversations''
     = (if ?mine = [] then ''No previous conversations''
        else ?block (hd ?recent) @ concat (map (\<lambda>b. [CHR 0x0A, CHR 0x0A] @ ?block b) (tl ?recent)))"
  proof (cases ?recent)
    case Nil
    then show ?thesis using e by (simp add: or_else_def historyString_def)
  next
    case (Cons r rs)
    then have "historyString ?recent \<noteq> []"
      using historyString_Nil [of ?recent] by simp
    with Cons e show ?thesis
      by (simp add: or_else_def historyString_def historyBlock_def [abs_def] js_join_Cons comp_def)
  qed
  have 1: "prompt_of userId d content
         = ''You are a personal well-being assistant focused on helping people become happier. ''
           @ [CHR 0x0A, CHR 0x0A]
           @ ''User Context: ''
           @ (if ?facts = [] then ''No specific context available''
              else ?fact (hd ?facts) @ concat (map (\<lambda>f. '', '' @ ?fact f) (tl ?facts)))
           @ [CHR 0x0A, CHR 0x0A]
           @ ''Recent conversation history:'' @ [CHR 0x0A]
           @ (if ?mine = [] then ''No previous conversations''
              else ?block (hd ?recent) @ concat (map (\<lambda>b. [CHR 0x0A, CHR 0x0A] @ ?block b) (tl ?recent)))
           @ [CHR 0x0A, CHR 0x0A]
           @ ''Current user input: '' @ [CHR 0x22] @ content @ [CHR 0x22]
           @ [CHR 0x0A, CHR 0x0A]
           @ ''Please provide personalized, actionable advice to help this person improve their well-being and happiness. Be empathetic, specific, and solution-focused. Consider their unique circumstances and history.''"
    unfolding prompt_of_def aiPrompt_def c h ..
  have 4: "length ?recent = min (length ?mine) 5"
    by (simp add: recentEntries_def l)
  have 5: "newest_first ?recent"
    unfolding recentEntries_def using s by (rule sorted_wrt_take)
  have "mset (?recent @ drop 5 ?s) = mset ?mine"
    unfolding recentEntries_def using m by simp
  moreover have "\<forall>x \<in> set ?recent. \<forall>y \<in> set (drop 5 ?s).
                   entry_createdAt y \<le> entry_createdAt x"
    unfolding recentEntries_def using sorted_wrt_take_drop [OF s, of 5] by simp
  ultimately have 6: "\<exists>older. mset (?recent @ older) = mset ?mine
          \<and> (\<forall>x \<in> set ?recent. \<forall>y \<in> set older.
                entry_createdAt y \<le> entry_createdAt x)"
    by blast
  note 7 = post_entries_try_calls [of e now userId content d]
  from 1 4 5 6 7 show ?thesis unfolding Let_def by blast
qed

theorem prompt_context_witness:
  "prompt_of 1 demo_db ''hi''
     = ''You are a personal well-being assistant focused on helping people become happier. ''
       @ [CHR 0x0A, CHR 0x0A]
       @ ''User Context: goal: sleep, mood: calm''
       @ [CHR 0x0A, CHR 0x0A]
       @ ''Recent conversation history:'' @ [CHR 0x0A]
       @ ''User: meh'' @ [CHR 0x0A] @ ''AI: Nap.'' @ [CHR 0x0A, CHR 0x0A]
       @ ''User: up'' @ [CHR 0x0A] @ ''AI: Nice.'' @ [CHR 0x0A, CHR 0x0A]
       @ ''User: low'' @ [CHR 0x0A] @ ''AI: Tea.'' @ [CHR 0x0A, CHR 0x0A]
       @ ''User: ok'' @ [CHR 0x0A] @ ''AI: Good.'' @ [CHR 0x0A, CHR 0x0A]
       @ ''User: tired'' @ [CHR 0x0A] @ ''AI: null''
       @ [CHR 0x0A, CHR 0x0A]
       @ ''Current user input: '' @ [CHR 0x22] @ ''hi'' @ [CHR 0x22]
       @ [CHR 0x0A, CHR 0x0A]
       @ ''Please provide personalized, actionable advice to help this person improve their well-being and happiness. Be empathetic, specific, and solution-focused. Consider their unique circumstances and history.''
   \<and> prompt_of 3 demo_db ''hi''
     = ''You are a personal well-being assistant focused on helping people become happier. ''
       @ [CHR 0x0A, CHR 0x0A]
       @ ''User Context: No specific context available''
       @ [CHR 0x0A, CHR 0x0A]
       @ ''Recent conversation history:'' @ [CHR 0x0A]
       @ ''No previous conversations''
       @ [CHR 0x0A, CHR 0x0A]
       @ ''Current user input: '' @ [CHR 0x22] @ ''hi'' @ [CHR 0x22]
       @ [CHR 0x0A, CHR 0x0A]
       @ ''Please provide personalized, actionable advice to help this person improve their well-being and happiness. Be empathetic, specific, and solution-focused. Consider their unique circumstances and history.''
   \<and> length (filter (\<lambda>r. entry_userId r = 1) (userEntries demo_db)) = 6
   \<and> length (recentEntries 1 demo_db) = 5
   \<and> map entry_id (recentEntries 1 demo_db) = [7, 6, 5, 3, 2]
   \<and> snd (snd (post_entries_try demo_env ''8'' 1 (JStr ''hi'') demo_db)) = [prompt_of 1 demo_db ''hi'']"
proof -
  note t1 = prompt_context [of 1 demo_db "''hi''" demo_env "''8''", unfolded Let_def]
  note t3 = prompt_context [of 3 demo_db "''hi''" demo_env "''8''", unfolded Let_def]
  have f1: "filter (\<lambda>r. context_userId r = 1) (userContext demo_db)
              = [\<lparr>context_id = 1, context_userId = 1, contextKey = ''goal'', contextValue = ''sleep'',
                   context_createdAt = ''1'', context_updatedAt = ''1''\<rparr>,
                 \<lparr>context_id = 2, context_userId = 1, contextKey = ''mood'', contextValue = ''calm'',
                   context_createdAt = ''1'', context_updatedAt = ''1''\<rparr>]"
    and f3: "filter (\<lambda>r. context_userId r = 3) (userContext demo_db) = []"
    and m3: "filter (\<lambda>r. entry_userId r = 3) (userEntries demo_db) = []"
    and m1: "length (filter (\<lambda>r. entry_userId r = 1) (userEntries demo_db)) = 6"
    by (simp_all add: demo_db_def)
  have n1: "filter (\<lambda>r. entry_userId r = 1) (userEntries demo_db) \<noteq> []"
    using m1 by auto
  have r1: "recentEntries 1 demo_db
              = [\<lparr>entry_id = 7, entry_userId = 1, entry_content = ''meh'', entry_aiResponse = Some ''Nap.'',
                   entry_createdAt = ''7''\<rparr>,
                 \<lparr>entry_id = 6, entry_userId = 1, entry_content = ''up'', entry_aiResponse = Some ''Nice.'',
                   entry_createdAt = ''6''\<rparr>,
                 \<lparr>entry_id = 5, entry_userId = 1, entry_content = ''low'', entry_aiResponse = Some ''Tea.'',
                   entry_createdAt = ''5''\<rparr>,
                 \<lparr>entry_id = 3, entry_userId = 1, entry_content = ''ok'', entry_aiResponse = Some ''Good.'',
                   entry_createdAt = ''4''\<rparr>,
                 \<lparr>entry_id = 2, entry_userId = 1, entry_content = ''tired'', entry_aiResponse = None,
                   entry_createdAt = ''3''\<rparr>]"
    by code_simp
  have p1: "prompt_of 1 demo_db ''hi''
     = ''You are a personal well-being assistant focused on helping people become happier. ''
       @ [CHR 0x0A, CHR 0x0A]
       @ ''User Context: goal: sleep, mood: calm''
       @ [CHR 0x0A, CHR 0x0A]
       @ ''Recent conversation history:'' @ [CHR 0x0A]
       @ ''User: meh'' @ [CHR 0x0A] @ ''AI: Nap.'' @ [CHR 0x0A, CHR 0x0A]
       @ ''User: up'' @ [CHR 0x0A] @ ''AI: Nice.'' @ [CHR 0x0A, CHR 0x0A]
       @ ''User: low'' @ [CHR 0x0A] @ ''AI: Tea.'' @ [CHR 0x0A, CHR 0x0A]
       @ ''User: ok'' @ [CHR 0x0A] @ ''AI: Good.'' @ [CHR 0x0A, CHR 0x0A]
       @ ''User: tired'' @ [CHR 0x0A] @ ''AI: null''
       @ [CHR 0x0A, CHR 0x0A]
       @ ''Current user input: '' @ [CHR 0x22] @ ''hi'' @ [CHR 0x22]
       @ [CHR 0x0A, CHR 0x0A]
       @ ''Please provide personalized, actionable advice to help this person improve their well-being and happiness. Be empathetic, specific, and solution-focused. Consider their unique circumstances and history.''"
    using t1 [THEN conjunct1] by (simp add: f1 n1 r1 del: One_nat_def)
  have p3: "prompt_of 3 demo_db ''hi''
     = ''You are a personal well-being assistant focused on helping people become happier. ''
       @ [CHR 0x0A, CHR 0x0A]
       @ ''User Context: No specific context available''
       @ [CHR 0x0A, CHR 0x0A]
       @ ''Recent conversation history:'' @ [CHR 0x0A]
       @ ''No previous conversations''
       @ [CHR 0x0A, CHR 0x0A]
       @ ''Current user input: '' @ [CHR 0x22] @ ''hi'' @ [CHR 0x22]
       @ [CHR 0x0A, CHR 0x0A]
       @ ''Please provide personalized, actionable advice to help this person improve their well-being and happiness. Be empathetic, specific, and solution-focused. Consider their unique circumstances and history.''"
    using t3 [THEN conjunct1] by (simp add: f3 m3 del: One_nat_def)
  have len: "length (recentEntries 1 demo_db) = 5"
    using t1 [THEN conjunct2, THEN conjunct1] m1 by simp
  have ids: "map entry_id (recentEntries 1 demo_db) = [7, 6, 5, 3, 2]"
    by (simp add: r1 del: One_nat_def)
  note call = t1 [THEN conjunct2, THEN conjunct2, THEN conjunct2, THEN conjunct2]
  from p1 p3 m1 len ids call show ?thesis by blast
qed

section \<open>The history page\<close>

text \<open>\<^verbatim>\<open>parseInt\<close> reads a number written in decimal digits as that number.\<close>

lemma below_ten: "(k::nat) < 10 \<Longrightarrow> k \<in> {0, 1, 2, 3, 4, 5, 6, 7, 8, 9}"
  by auto

lemma digitVal_digit: "(k::nat) < 10 \<Longrightarrow> digitVal (char_of (48 + k)) = Some k"
  by (simp add: digitVal_def Let_def)

lemma isDigit_digit: "(k::nat) < 10 \<Longrightarrow> isDigit 10 (char_of (48 + k))"
  by (simp add: isDigit_def digitVal_digit)

lemma digit_plain:
  assumes "(k::nat) < 10"
  shows "\<not> isWhite (char_of (48 + k))" and "char_of (48 + k) \<noteq> CHR ''-''"
    and "char_of (48 + k) \<noteq> CHR ''+''" and "char_of (48 + k) \<noteq> CHR ''x''"
    and "char_of (48 + k) \<noteq> CHR ''X''"
  using below_ten [OF assms] by (auto simp: isWhite_def char_of_def)

lemma show_nat_digits: "\<forall>c \<in> set (show_nat n). \<exists>k::nat. k < 10 \<and> c = char_of (48 + k)"
proof (induction n rule: show_nat.induct)
  case (1 n)
  show ?case
  proof (cases "n < 10")
    case True
    then show ?thesis by (subst show_nat.simps) auto
  next
    case False
    have "n mod 10 < 10 \<and> char_of (48 + n mod 10) = (char_of (48 + n mod 10) :: char)" by simp
    then have "\<exists>k::nat. k < 10 \<and> (char_of (48 + n mod 10) :: char) = char_of (48 + k)" by blast
    with False 1 show ?thesis by (subst show_nat.simps) (simp del: char_of_def)
  qed
qed

lemma show_nat_nonempty: "show_nat n \<noteq> []"
  by (subst show_nat.simps) simp

lemma digitsValue_snoc:
  "digitsValue r (ds @ [c]) = digitsValue r ds * r + the (digitVal c)"
  by (simp add: digitsValue_def)

lemma digitsValue_show_nat: "digitsValue 10 (show_nat n) = n"
proof (induction n rule: show_nat.induct)
  case (1 n)
  show ?case
  proof (cases "n < 10")
    case True
    then show ?thesis
      by (subst show_nat.simps) (simp add: digitsValue_def digitVal_digit)
  next
    case False
    have "n mod 10 < 10" by simp
    then have "the (digitVal (char_of (48 + n mod 10))) = n mod 10"
      by (simp only: digitVal_digit option.sel)
    with False 1 show ?thesis
      by (subst show_nat.simps) (simp add: digitsValue_snoc)
  qed
qed

lemma parseInt_show_nat: "parseInt (show_nat n) = Some (int n)"
proof -
  define s where "s = show_nat n"
  have ne: "s \<noteq> []" unfolding s_def by (rule show_nat_nonempty)
  have all: "\<forall>c \<in> set s. \<exists>k::nat. k < 10 \<and> c = char_of (48 + k)"
    unfolding s_def by (rule show_nat_digits)
  have val: "digitsValue 10 s = n" unfolding s_def by (rule digitsValue_show_nat)
  obtain c cs where s: "s = c # cs" using ne by (cases s) auto
  obtain k :: nat where k: "k < 10" "c = char_of (48 + k)" using all s by auto
  have w: "dropWhile isWhite s = s"
    using digit_plain(1) [OF k(1)] k(2) s by simp
  have sign: "c \<noteq> CHR ''-''" "c \<noteq> CHR ''+''"
    using digit_plain(2,3) [OF k(1)] k(2) by simp_all
  have second: "c' \<noteq> CHR ''x'' \<and> c' \<noteq> CHR ''X''" if "cs = c' # cs'" for c' cs'
  proof -
    from that s all obtain k' :: nat where "k' < 10" "c' = char_of (48 + k')" by auto
    with digit_plain(4,5) [of k'] show ?thesis by simp
  qed
  have nohex: "take 2 s \<noteq> ''0x''" "take 2 s \<noteq> ''0X''"
    using s second by (cases cs; simp)+
  have tw: "takeWhile (isDigit 10) s = s"
    using all isDigit_digit by (auto simp: takeWhile_eq_all_conv)
  have h: "hd s \<noteq> CHR ''-''" "hd s \<noteq> CHR ''+''" using sign s by simp_all
  have "parseInt s = Some (int n)"
    by (simp add: parseInt_def Let_def w h nohex tw ne val)
  then show ?thesis by (simp only: s_def)
qed

lemma get_entries_page:
  assumes "parseInt (query_or limit ''20'') = Some l" and "1 \<le> l" and "l \<le> 2 ^ 53"
    and "parseInt (query_or offset ''0'') = Some off" and "0 \<le> off" and "off \<le> 2 ^ 53"
  shows "get_entries e userId limit offset d
           = (Inr (200, EntriesBody (take (nat l) (drop (nat off) (entries_of userId d)))), d, [])"
  using assms by (simp add: get_entries_def paginate_def)

text \<open>
  C7. For an authenticated user, \<^verbatim>\<open>GET /entries\<close> answers 200 with the user's entries,
  newest first, without the first \<open>offset\<close> of them and cut after \<open>limit\<close>, for a limit
  of at least one and an offset of at least zero as \<^verbatim>\<open>parseInt\<close> reads them, so for
  every such pair written in decimal digits; an absent limit is 20 and an absent
  offset 0; and with \<^verbatim>\<open>limit=2&offset=1\<close> and three entries or more, the answer is the
  second and the third newest, two rows.
\<close>

theorem history_page:
  assumes "startsWith h ''Bearer ''" and "verify e (substring h 7) (JWT_SECRET e) = Some userId"
  shows "(parseInt (query_or limit ''20'') = Some l \<and> 1 \<le> l \<and> l \<le> 2 ^ 53
          \<and> parseInt (query_or offset ''0'') = Some off \<and> 0 \<le> off \<and> off \<le> 2 ^ 53 \<longrightarrow>
            app e now (GetEntries (Some h) limit offset) d
              = (Inr (200, EntriesBody (take (nat l) (drop (nat off) (entries_of userId d)))), d, [])
            \<and> length (take (nat l) (drop (nat off) (entries_of userId d))) \<le> nat l)
         \<and> (1 \<le> n \<and> n \<le> 2 ^ 53 \<and> m \<le> 2 ^ 53 \<longrightarrow>
              app e now (GetEntries (Some h) (Some (show_nat n)) (Some (show_nat m))) d
                = (Inr (200, EntriesBody (take n (drop m (entries_of userId d)))), d, []))
         \<and> app e now (GetEntries (Some h) None None) d
             = (Inr (200, EntriesBody (take 20 (entries_of userId d))), d, [])
         \<and> (3 \<le> length (entries_of userId d) \<longrightarrow>
              app e now (GetEntries (Some h) (Some ''2'') (Some ''1'')) d
                = (Inr (200, EntriesBody [entries_of userId d ! 1, entries_of userId d ! 2]), d, []))
         \<and> newest_first (entries_of userId d)
         \<and> mset (entries_of userId d) = mset (filter (\<lambda>r. entry_userId r = userId) (userEntries d))"
proof -
  have a: "authMiddleware e (Some h) d k = k userId" for k
    using assms by (rule authMiddleware_accepts)
  have 1: "parseInt (query_or limit ''20'') = Some l \<and> 1 \<le> l \<and> l \<le> 2 ^ 53
          \<and> parseInt (query_or offset ''0'') = Some off \<and> 0 \<le> off \<and> off \<le> 2 ^ 53 \<longrightarrow>
            app e now (GetEntries (Some h) limit offset) d
              = (Inr (200, EntriesBody (take (nat l) (drop (nat off) (entries_of userId d)))), d, [])
            \<and> length (take (nat l) (drop (nat off) (entries_of userId d))) \<le> nat l"
    using get_entries_page [of limit l offset off e userId d] by (simp add: a)
  have 6: "app e now (GetEntries (Some h) (Some (show_nat n)) (Some (show_nat m))) d
                = (Inr (200, EntriesBody (take n (drop m (entries_of userId d)))), d, [])"
    if "1 \<le> n \<and> n \<le> 2 ^ 53 \<and> m \<le> 2 ^ 53"
  proof -
    have q: "query_or (Some (show_nat k)) dflt = show_nat k" for k dflt
      by (simp add: query_or_def or_else_def show_nat_nonempty)
    have "int n \<le> 2 ^ 53" "int m \<le> 2 ^ 53" using that by (simp_all add: of_nat_le_iff [symmetric] del: of_nat_le_iff)
    then show ?thesis
      using get_entries_page [of "Some (show_nat n)" "int n" "Some (show_nat m)" "int m" e userId d] that
      by (simp add: a q parseInt_show_nat)
  qed
  have 2: "app e now (GetEntries (Some h) None None) d
             = (Inr (200, EntriesBody (take 20 (entries_of userId d))), d, [])"
    using get_entries_page [of None 20 None 0 e userId d]
    by (simp add: a query_or_def p20 p0)
  have 3: "app e now (GetEntries (Some h) (Some ''2'') (Some ''1'')) d
                = (Inr (200, EntriesBody [entries_of userId d ! 1, entries_of userId d ! 2]), d, [])"
    if len: "3 \<le> length (entries_of userId d)"
  proof -
    obtain x y z zs where s: "entries_of userId d = x # y # z # zs"
      using len by (auto simp: numeral_3_eq_3 Suc_le_length_iff)
    show ?thesis
      using get_entries_page [of "Some ''2''" 2 "Some ''1''" 1 e userId d]
      by (simp add: a query_or_def or_else_def p2 p1 s)
  qed
  have 4: "newest_first (entries_of userId d)"
    by (simp add: entries_of_def sorted_orderBy_desc)
  have 5: "mset (entries_of userId d) = mset (filter (\<lambda>r. entry_userId r = userId) (userEntries d))"
    by (simp add: entries_of_def)
  from 1 6 2 3 4 5 show ?thesis by blast
qed

theorem history_page_witness:
  "startsWith ''Bearer t1'' ''Bearer ''
   \<and> verify demo_env (substring ''Bearer t1'' 7) (JWT_SECRET demo_env) = Some 1
   \<and> parseInt (query_or (Some ''3'') ''20'') = Some 3 \<and> parseInt (query_or None ''0'') = Some 0
   \<and> app demo_env ''9'' (GetEntries (Some ''Bearer t1'') (Some ''3'') None) demo_db
       = (Inr (200, EntriesBody (take 3 (drop 0 (entries_of 1 demo_db)))), demo_db, [])
   \<and> (1::nat) \<le> 4 \<and> (4::nat) \<le> 2 ^ 53 \<and> (2::nat) \<le> 2 ^ 53
   \<and> app demo_env ''9'' (GetEntries (Some ''Bearer t1'') (Some (show_nat 4)) (Some (show_nat 2))) demo_db
       = (Inr (200, EntriesBody (take 4 (drop 2 (entries_of 1 demo_db)))), demo_db, [])
   \<and> 3 \<le> length (entries_of 1 demo_db)
   \<and> app demo_env ''9'' (GetEntries (Some ''Bearer t1'') (Some ''2'') (Some ''1'')) demo_db
       = (Inr (200, EntriesBody [entries_of 1 demo_db ! 1, entries_of 1 demo_db ! 2]), demo_db, [])
   \<and> map entry_id (entries_of 1 demo_db) = [7, 6, 5, 3, 2, 1]"
proof -
  have l: "parseInt (query_or (Some ''3'') ''20'') = Some 3" by code_simp
  have off: "parseInt (query_or None ''0'') = Some 0" by code_simp
  have n: "3 \<le> length (entries_of 1 demo_db)" by code_simp
  have b: "(1::nat) \<le> 4" "(4::nat) \<le> 2 ^ 53" "(2::nat) \<le> 2 ^ 53" by simp_all
  have ids: "map entry_id (entries_of 1 demo_db) = [7, 6, 5, 3, 2, 1]" by code_simp
  note t = history_page [OF demo_auth, where limit = "Some ''3''" and l = 3 and offset = None
             and off = 0 and now = "''9''" and d = demo_db and n = 4 and m = 2]
  from t l off n b
  have "app demo_env ''9'' (GetEntries (Some ''Bearer t1'') (Some ''3'') None) demo_db
       = (Inr (200, EntriesBody (take 3 (drop 0 (entries_of 1 demo_db)))), demo_db, [])"
    and "app demo_env ''9'' (GetEntries (Some ''Bearer t1'') (Some (show_nat 4)) (Some (show_nat 2))) demo_db
       = (Inr (200, EntriesBody (take 4 (drop 2 (entries_of 1 demo_db)))), demo_db, [])"
    and "app demo_env ''9'' (GetEntries (Some ''Bearer t1'') (Some ''2'') (Some ''1'')) demo_db
       = (Inr (200, EntriesBody [entries_of 1 demo_db ! 1, entries_of 1 demo_db ! 2]), demo_db, [])"
    by simp_all
  with demo_auth l off n b ids show ?thesis by blast
qed

section \<open>Login\<close>

lemma bind_name:
  "falsy n \<or> (\<exists>s. n = Some (JStr s)) \<Longrightarrow>
   bind_text e (if falsy n then Some JNull else n) = Inr (display_name n)"
  by (cases n rule: falsy.cases) (auto simp: display_name_def)

lemma login_known:
  assumes "js_get (Some body) ''email'' = Inr (Some (JStr a))" and "a \<noteq> []"
    and "js_get (Some body) ''name'' = Inr n"
    and "filter (\<lambda>u. user_email u = a) (users d) = user # rest"
  shows "login e now body d
           = (Inr (200, LoginBody (sign e (user_id user) (JWT_SECRET e)) (user_id user)
                          (user_email user) (user_name user)), d, [])"
  using assms by (simp add: login_def login_try_def)

lemma login_new:
  assumes "js_get (Some body) ''email'' = Inr (Some (JStr a))" and "a \<noteq> []"
    and "js_get (Some body) ''name'' = Inr n"
    and "falsy n \<or> (\<exists>s. n = Some (JStr s))"
    and "a \<notin> set (map user_email (users d))"
  shows "let user = \<lparr>user_id = next_id (seq_users d) (map user_id (users d)), user_email = a,
                      user_name = display_name n, user_createdAt = now, user_updatedAt = now\<rparr>
         in login e now body d
           = (Inr (200, LoginBody (sign e (user_id user) (JWT_SECRET e)) (user_id user) a
                          (display_name n)),
              d\<lparr>users := users d @ [user], seq_users := user_id user\<rparr>, [])"
proof -
  have "filter (\<lambda>u. user_email u = a) (users d) = []"
    using assms(5) by (auto simp: filter_empty_conv)
  then show ?thesis
    using assms(1-3,5) bind_name [OF assms(4), where e = e]
    by (simp add: login_def login_try_def insert_user_def Let_def)
qed

text \<open>
  C6. Two logins with the same non-empty email, the first with a display name that is
  absent or a string, both answer 200 with the same user id, email and name. The
  second leaves the database as the first left it. The first adds one user row when
  no row has the email, and nothing otherwise.
\<close>

theorem login_idempotent:
  assumes "js_get (Some body) ''email'' = Inr (Some (JStr a))" and "a \<noteq> []"
    and "js_get (Some body) ''name'' = Inr n"
    and "falsy n \<or> (\<exists>s. n = Some (JStr s))"
    and "js_get (Some body') ''email'' = Inr (Some (JStr a))"
    and "js_get (Some body') ''name'' = Inr n'"
  shows "\<exists>userId name d1.
           app e now (PostLogin (Some body)) d
             = (Inr (200, LoginBody (sign e userId (JWT_SECRET e)) userId a name), d1, [])
         \<and> app e' now' (PostLogin (Some body')) d1
             = (Inr (200, LoginBody (sign e' userId (JWT_SECRET e')) userId a name), d1, [])
         \<and> (if a \<in> set (map user_email (users d)) then d1 = d
             else \<exists>row. d1 = d\<lparr>users := users d @ [row], seq_users := userId\<rparr>
                        \<and> user_id row = userId \<and> user_email row = a)"
proof (cases "a \<in> set (map user_email (users d))")
  case True
  then obtain user rest where f: "filter (\<lambda>u. user_email u = a) (users d) = user # rest"
    by (cases "filter (\<lambda>u. user_email u = a) (users d)") (auto simp: filter_empty_conv)
  then have "user \<in> set (filter (\<lambda>u. user_email u = a) (users d))" by simp
  then have ua: "user_email user = a" by simp
  show ?thesis
    using login_known [OF assms(1-3) f, where e = e and now = now]
      login_known [OF assms(5) assms(2) assms(6) f, where e = e' and now = now']
      True ua
    by (auto simp: with_json_def)
next
  case False
  let ?user = "\<lparr>user_id = next_id (seq_users d) (map user_id (users d)), user_email = a,
                 user_name = display_name n, user_createdAt = now, user_updatedAt = now\<rparr>"
  let ?d1 = "d\<lparr>users := users d @ [?user], seq_users := user_id ?user\<rparr>"
  have "filter (\<lambda>u. user_email u = a) (users d) = []"
    using False by (auto simp: filter_empty_conv)
  then have f: "filter (\<lambda>u. user_email u = a) (users ?d1) = ?user # []" by simp
  show ?thesis
    using login_new [OF assms(1-4) False, where e = e and now = now]
      login_known [OF assms(5) assms(2) assms(6) f, where e = e' and now = now'] False
    by (auto simp: with_json_def Let_def)
qed

theorem login_idempotent_witness:
  "js_get (Some demo_login) ''email'' = Inr (Some (JStr ''x@y.z'')) \<and> ''x@y.z'' \<noteq> []
   \<and> js_get (Some demo_login) ''name'' = Inr (Some (JStr ''Ex''))
   \<and> (falsy (Some (JStr ''Ex'')) \<or> (\<exists>s. Some (JStr ''Ex'') = Some (JStr s)))
   \<and> (\<exists>userId name d1.
           app demo_env ''9'' (PostLogin (Some demo_login)) demo_db
             = (Inr (200, LoginBody (sign demo_env userId (JWT_SECRET demo_env)) userId ''x@y.z'' name), d1, [])
         \<and> app demo_env ''9'' (PostLogin (Some demo_login)) d1
             = (Inr (200, LoginBody (sign demo_env userId (JWT_SECRET demo_env)) userId ''x@y.z'' name), d1, [])
         \<and> (if ''x@y.z'' \<in> set (map user_email (users demo_db)) then d1 = demo_db
             else \<exists>row. d1 = demo_db\<lparr>users := users demo_db @ [row], seq_users := userId\<rparr>
                        \<and> user_id row = userId \<and> user_email row = ''x@y.z''))
   \<and> fst (app demo_env ''9'' (PostLogin (Some demo_login)) demo_db)
       = Inr (200, LoginBody ''t3'' 3 ''x@y.z'' (Some ''Ex''))
   \<and> fst (app demo_env ''9'' (PostLogin (Some demo_login))
            (fst (snd (app demo_env ''9'' (PostLogin (Some demo_login)) demo_db))))
       = Inr (200, LoginBody ''t3'' 3 ''x@y.z'' (Some ''Ex''))
   \<and> length (users (fst (snd (app demo_env ''9'' (PostLogin (Some demo_login))
            (fst (snd (app demo_env ''9'' (PostLogin (Some demo_login)) demo_db))))))) = 3"
proof -
  have em: "js_get (Some demo_login) ''email'' = Inr (Some (JStr ''x@y.z''))"
    and nm: "js_get (Some demo_login) ''name'' = Inr (Some (JStr ''Ex''))"
    by (simp_all add: demo_login_def)
  have ne: "''x@y.z'' \<noteq> []" by simp
  have ok: "falsy (Some (JStr ''Ex'')) \<or> (\<exists>s. Some (JStr ''Ex'') = Some (JStr s))" by simp
  have e1: "fst (app demo_env ''9'' (PostLogin (Some demo_login)) demo_db)
       = Inr (200, LoginBody ''t3'' 3 ''x@y.z'' (Some ''Ex''))"
    by code_simp
  have e2: "fst (app demo_env ''9'' (PostLogin (Some demo_login))
            (fst (snd (app demo_env ''9'' (PostLogin (Some demo_login)) demo_db))))
       = Inr (200, LoginBody ''t3'' 3 ''x@y.z'' (Some ''Ex''))"
    by code_simp
  have e3: "length (users (fst (snd (app demo_env ''9'' (PostLogin (Some demo_login))
            (fst (snd (app demo_env ''9'' (PostLogin (Some demo_login)) demo_db))))))) = 3"
    by code_simp
  from login_idempotent [OF em ne nm ok em nm, of demo_env "''9''" demo_db demo_env "''9''"]
    em ne nm ok e1 e2 e3
  show ?thesis by blast
qed

section \<open>Replacing the profile\<close>

lemma contextEntries_storable:
  "storable fs \<Longrightarrow>
   contextEntries userId fs = Inr (map (\<lambda>p. (userId, fst p, JStr (snd p))) (submitted fs))"
proof (induction fs)
  case Nil
  show ?case by (simp add: submitted_def)
next
  case (Cons f fs)
  obtain key v where f: "f = (key, v)" by (cases f)
  from Cons.prems have v: "storable_value v" and rest: "storable fs"
    by (simp_all add: storable_def f)
  note IH = Cons.IH [OF rest]
  show ?case
  proof (cases v)
    case (JArr vs)
    then have "list_all is_JStr vs" using v by (simp add: storable_value_def)
    then have "map (\<lambda>v. (userId, key, v)) vs = map (\<lambda>v. (userId, key, JStr (the_JStr v))) vs"
      by (auto simp: list_all_iff is_JStr_def the_JStr_def split: json.splits)
    with JArr IH show ?thesis
      by (simp add: f submitted_def submitted_value_def comp_def)
  next
    case JNull
    with IH show ?thesis
      by (simp add: f submitted_def submitted_value_def rendered_def)
  next
    case (JBool b)
    with IH show ?thesis
      by (simp add: f submitted_def submitted_value_def rendered_def)
  next
    case (JNum n)
    with IH show ?thesis
      by (simp add: f submitted_def submitted_value_def rendered_def)
  next
    case (JStr t)
    with IH show ?thesis
      by (simp add: f submitted_def submitted_value_def rendered_def)
  next
    case (JObj ps)
    with IH v show ?thesis
      by (auto simp: f storable_value_def submitted_def submitted_value_def rendered_def
               split: if_splits)
  qed
qed

lemma collect_bind_entry:
  "collect (map (bind_entry e) (map (\<lambda>p. (userId, fst p, JStr (snd p))) ps))
     = Inr (map (\<lambda>p. (userId, fst p, snd p)) ps)"
  by (induction ps) (simp_all add: bind_entry_def)

lemma fold_add_context:
  "\<exists>rows. userContext (fold (add_context now) vs d) = userContext d @ rows
         \<and> map (\<lambda>r. (context_userId r, contextKey r, contextValue r)) rows = vs
         \<and> users (fold (add_context now) vs d) = users d"
proof (induction vs arbitrary: d)
  case Nil
  show ?case by simp
next
  case (Cons v vs)
  obtain r where r: "userContext (add_context now v d) = userContext d @ [r]"
    "(context_userId r, contextKey r, contextValue r) = v"
    "users (add_context now v d) = users d"
    by (simp add: add_context_def Let_def)
  obtain rows where
    "userContext (fold (add_context now) vs (add_context now v d))
       = userContext (add_context now v d) @ rows"
    "map (\<lambda>r. (context_userId r, contextKey r, contextValue r)) rows = vs"
    "users (fold (add_context now) vs (add_context now v d)) = users (add_context now v d)"
    using Cons.IH by blast
  with r show ?case
    by (intro exI [of _ "r # rows"]) simp
qed


lemma put_profile_storable:
  assumes "userId \<in> set (map user_id (users d))" and "storable fs"
    and "3 * length (submitted fs) \<le> max_bound_parameters"
  shows "\<exists>d2. put_profile e now userId (JObj fs) d
                = (Inr (200, SuccessBody True ''Profile updated successfully''), d2, [])
          \<and> map fact_of (context_of userId d2) = submitted fs
          \<and> filter (\<lambda>r. context_userId r \<noteq> userId) (userContext d2)
              = filter (\<lambda>r. context_userId r \<noteq> userId) (userContext d)
          \<and> users d2 = users d \<and> userEntries d2 = userEntries d"
proof -
  let ?d1 = "delete_context userId d"
  let ?vs = "map (\<lambda>p. (userId, fst p, snd p)) (submitted fs)"
  let ?d2 = "fold (add_context now) ?vs ?d1"
  have d1: "context_of userId ?d1 = []" "users ?d1 = users d" "userEntries ?d1 = userEntries d"
    "filter (\<lambda>r. context_userId r \<noteq> userId) (userContext ?d1)
       = filter (\<lambda>r. context_userId r \<noteq> userId) (userContext d)"
    by (simp_all add: delete_context_def context_of_def)
  obtain rows where rows: "userContext ?d2 = userContext ?d1 @ rows"
    "map (\<lambda>r. (context_userId r, contextKey r, contextValue r)) rows = ?vs"
    "users ?d2 = users ?d1"
    using fold_add_context by blast
  have mine: "\<forall>r \<in> set rows. context_userId r = userId"
  proof
    fix r assume "r \<in> set rows"
    then have "(context_userId r, contextKey r, contextValue r) \<in> set ?vs"
      using rows(2) by (metis (no_types, lifting) image_eqI list.set_map)
    then show "context_userId r = userId" by auto
  qed
  have facts: "map fact_of rows = submitted fs"
  proof -
    have "map (\<lambda>v. (fst (snd v), snd (snd v))) (map (\<lambda>r. (context_userId r, contextKey r, contextValue r)) rows)
            = map (\<lambda>v. (fst (snd v), snd (snd v))) ?vs"
      using rows(2) by simp
    then show ?thesis by (simp add: comp_def fact_of_def [abs_def])
  qed
  have ins: "insert_context now ?vs ?d1 = Inr ?d2"
    using assms(1,3) d1(2) by (simp add: insert_context_def list_all_iff)
  have c2: "context_of userId ?d2 = rows"
    using rows(1) d1(1) mine by (simp add: context_of_def)
  have o2: "filter (\<lambda>r. context_userId r \<noteq> userId) (userContext ?d2)
              = filter (\<lambda>r. context_userId r \<noteq> userId) (userContext d)"
    using rows(1) d1(4) mine by simp
  have run: "put_profile e now userId (JObj fs) d
               = (Inr (200, SuccessBody True ''Profile updated successfully''),
                  if submitted fs = [] then ?d1 else ?d2, [])"
    using contextEntries_storable [OF assms(2), of userId] collect_bind_entry [of e userId "submitted fs"] ins
    by (simp add: put_profile_def put_profile_try_def Object_entries_def Let_def)
  show ?thesis
  proof (cases "submitted fs = []")
    case True
    with run d1 show ?thesis by (simp add: context_of_def)
  next
    case False
    with run c2 o2 facts rows(3) d1 show ?thesis by simp
  qed
qed

lemma map_of_push:
  "map_of (map (\<lambda>(k, vs). if k = k0 then (k, vs @ [v]) else (k, vs)) acc) k
     = (if k = k0 then map_option (\<lambda>vs. vs @ [v]) (map_of acc k) else map_of acc k)"
  by (induction acc) auto

lemma map_fst_push:
  "map fst (map (\<lambda>(k, vs). if k = k0 then (k, vs @ [v]) else (k, vs)) acc) = map fst acc"
  by (induction acc) auto

lemma group_context_ok:
  assumes "\<forall>r \<in> set rows. contextKey r \<notin> set Object_prototype" and "distinct (map fst acc)"
  shows "\<exists>context. group_context rows acc = Inr context \<and> distinct (map fst context)
           \<and> (\<forall>k. map_of context k
                   = (case map_of acc k of
                        Some vs \<Rightarrow> Some (vs @ values_of k (map fact_of rows))
                      | None \<Rightarrow> if k \<in> fst ` set (map fact_of rows)
                                then Some (values_of k (map fact_of rows)) else None))"
  using assms
proof (induction rows arbitrary: acc)
  case Nil
  then show ?case by (auto simp: values_of_def split: option.splits)
next
  case (Cons item items)
  let ?k0 = "contextKey item" and ?v = "contextValue item"
  show ?case
  proof (cases "map_of acc ?k0")
    case None
    let ?acc = "acc @ [(?k0, [?v])]"
    have "?k0 \<notin> fst ` set acc" using None by (simp add: map_of_eq_None_iff)
    then have dist: "distinct (map fst ?acc)" using Cons.prems(2) by simp
    obtain ctx where c: "group_context items ?acc = Inr ctx" "distinct (map fst ctx)"
      "\<forall>k. map_of ctx k
                   = (case map_of ?acc k of
                        Some vs \<Rightarrow> Some (vs @ values_of k (map fact_of items))
                      | None \<Rightarrow> if k \<in> fst ` set (map fact_of items)
                                then Some (values_of k (map fact_of items)) else None)"
      using Cons.IH [OF _ dist] Cons.prems(1) by auto
    have step: "group_context (item # items) acc = Inr ctx"
      using None Cons.prems(1) c(1) by simp
    have "map_of ctx k
                   = (case map_of acc k of
                        Some vs \<Rightarrow> Some (vs @ values_of k (map fact_of (item # items)))
                      | None \<Rightarrow> if k \<in> fst ` set (map fact_of (item # items))
                                then Some (values_of k (map fact_of (item # items))) else None)" for k
      using c(3) [rule_format, of k] None
      by (auto simp: map_add_def values_of_def fact_of_def split: option.splits)
    with step c(2) show ?thesis by blast
  next
    case (Some vs0)
    let ?acc = "map (\<lambda>(k, vs). if k = ?k0 then (k, vs @ [?v]) else (k, vs)) acc"
    have dist: "distinct (map fst ?acc)" using Cons.prems(2) by (simp only: map_fst_push)
    obtain ctx where c: "group_context items ?acc = Inr ctx" "distinct (map fst ctx)"
      "\<forall>k. map_of ctx k
                   = (case map_of ?acc k of
                        Some vs \<Rightarrow> Some (vs @ values_of k (map fact_of items))
                      | None \<Rightarrow> if k \<in> fst ` set (map fact_of items)
                                then Some (values_of k (map fact_of items)) else None)"
      using Cons.IH [OF _ dist] Cons.prems(1) by auto
    have step: "group_context (item # items) acc = Inr ctx"
      using Some c(1) by simp
    have "map_of ctx k
                   = (case map_of acc k of
                        Some vs \<Rightarrow> Some (vs @ values_of k (map fact_of (item # items)))
                      | None \<Rightarrow> if k \<in> fst ` set (map fact_of (item # items))
                                then Some (values_of k (map fact_of (item # items))) else None)" for k
      using c(3) [rule_format, of k] Some
      by (auto simp: map_of_push values_of_def fact_of_def split: option.splits)
    with step c(2) show ?thesis by blast
  qed
qed


lemma get_profile_ok:
  assumes "userId \<in> set (map user_id (users d))"
    and "fst ` set (map fact_of (context_of userId d)) \<inter> set Object_prototype = {}"
  shows "\<exists>email name ctx.
           get_profile userId d = (Inr (200, ProfileBody userId email name ctx), d, [])
         \<and> distinct (map fst ctx)
         \<and> (\<forall>k. map_of ctx k
                 = (if k \<in> fst ` set (map fact_of (context_of userId d))
                    then Some (values_of k (map fact_of (context_of userId d))) else None))"
proof -
  have "\<forall>r \<in> set (context_of userId d). contextKey r \<notin> set Object_prototype"
    using assms(2) by (force simp: fact_of_def)
  then obtain ctx where c: "group_context (context_of userId d) [] = Inr ctx"
    "distinct (map fst ctx)"
    "\<forall>k. map_of ctx k
                 = (if k \<in> fst ` set (map fact_of (context_of userId d))
                    then Some (values_of k (map fact_of (context_of userId d))) else None)"
    using group_context_ok [of "context_of userId d" "[]"] by auto
  obtain user rest where u: "filter (\<lambda>u. user_id u = userId) (users d) = user # rest"
    using assms(1) by (cases "filter (\<lambda>u. user_id u = userId) (users d)") (auto simp: filter_empty_conv)
  then have "user \<in> set (filter (\<lambda>u. user_id u = userId) (users d))" by simp
  then have "user_id user = userId" by simp
  with c u show ?thesis by (simp add: get_profile_def)
qed

text \<open>
  C4, as the code has it. An authenticated user, present in the user table, sends an
  object whose arrays hold strings only and whose other values \<^verbatim>\<open>String\<close> accepts,
  with at most 33 values in all, so that the one insert stays within the hundred
  parameters a statement may bind.
  The update answers 200; afterwards the user's rows are exactly the submitted facts,
  one row per array element and one per other value, in the order of the body; the
  rows of other users, the users and the entries are as before. If no submitted key
  is the name of a member of \<^verbatim>\<open>Object.prototype\<close>, a following \<^verbatim>\<open>GET /profile\<close> answers
  200 with each submitted key once, mapped to the list of its values in order, and no
  other key.
\<close>

theorem profile_replaced:
  assumes "startsWith h ''Bearer ''" and "verify e (substring h 7) (JWT_SECRET e) = Some userId"
    and "userId \<in> set (map user_id (users d))"
    and "storable fs"
    and "3 * length (submitted fs) \<le> max_bound_parameters"
  shows "\<exists>d2. app e now (PutProfile (Some h) (Some (JObj fs))) d
                = (Inr (200, SuccessBody True ''Profile updated successfully''), d2, [])
          \<and> map fact_of (context_of userId d2) = submitted fs
          \<and> filter (\<lambda>r. context_userId r \<noteq> userId) (userContext d2)
              = filter (\<lambda>r. context_userId r \<noteq> userId) (userContext d)
          \<and> users d2 = users d \<and> userEntries d2 = userEntries d
          \<and> (fst ` set (submitted fs) \<inter> set Object_prototype = {} \<longrightarrow>
               (\<exists>email name ctx.
                  app e now' (GetProfile (Some h)) d2
                    = (Inr (200, ProfileBody userId email name ctx), d2, [])
                  \<and> distinct (map fst ctx)
                  \<and> (\<forall>k. map_of ctx k
                          = (if k \<in> fst ` set (submitted fs)
                             then Some (values_of k (submitted fs)) else None))))"
proof -
  have a: "authMiddleware e (Some h) d' k = k userId" for k d'
    using assms(1,2) by (rule authMiddleware_accepts)
  obtain d2 where d2: "put_profile e now userId (JObj fs) d
                = (Inr (200, SuccessBody True ''Profile updated successfully''), d2, [])"
    "map fact_of (context_of userId d2) = submitted fs"
    "filter (\<lambda>r. context_userId r \<noteq> userId) (userContext d2)
              = filter (\<lambda>r. context_userId r \<noteq> userId) (userContext d)"
    "users d2 = users d" "userEntries d2 = userEntries d"
    using put_profile_storable [OF assms(3,4,5)] by blast
  have "\<exists>email name ctx.
                  app e now' (GetProfile (Some h)) d2
                    = (Inr (200, ProfileBody userId email name ctx), d2, [])
                  \<and> distinct (map fst ctx)
                  \<and> (\<forall>k. map_of ctx k
                          = (if k \<in> fst ` set (submitted fs)
                             then Some (values_of k (submitted fs)) else None))"
    if keys: "fst ` set (submitted fs) \<inter> set Object_prototype = {}"
  proof -
    have u: "userId \<in> set (map user_id (users d2))" using assms(3) d2(4) by simp
    have g: "app e now' (GetProfile (Some h)) d2 = get_profile userId d2" by (simp add: a)
    show ?thesis
      unfolding g using get_profile_ok [of userId d2, unfolded d2(2), OF u keys] .
  qed
  moreover have "app e now (PutProfile (Some h) (Some (JObj fs))) d
                = (Inr (200, SuccessBody True ''Profile updated successfully''), d2, [])"
    using d2(1) by (simp add: a with_json_def)
  ultimately show ?thesis using d2(2-5) by blast
qed

theorem profile_replaced_witness:
  "startsWith ''Bearer t1'' ''Bearer ''
   \<and> verify demo_env (substring ''Bearer t1'' 7) (JWT_SECRET demo_env) = Some 1
   \<and> 1 \<in> set (map user_id (users demo_db))
   \<and> storable demo_profile
   \<and> 3 * length (submitted demo_profile) \<le> max_bound_parameters
   \<and> fst ` set (submitted demo_profile) \<inter> set Object_prototype = {}
   \<and> submitted demo_profile = [(''mood'', ''happy''), (''mood'', ''calm''), (''goal'', ''sleep'')]
   \<and> (\<exists>d2. app demo_env ''9'' (PutProfile (Some ''Bearer t1'') (Some (JObj demo_profile))) demo_db
                = (Inr (200, SuccessBody True ''Profile updated successfully''), d2, [])
          \<and> map fact_of (context_of 1 d2) = submitted demo_profile
          \<and> (\<exists>email name ctx.
                  app demo_env ''9'' (GetProfile (Some ''Bearer t1'')) d2
                    = (Inr (200, ProfileBody 1 email name ctx), d2, [])
                  \<and> map_of ctx ''mood'' = Some [''happy'', ''calm'']
                  \<and> map_of ctx ''goal'' = Some [''sleep'']
                  \<and> map_of ctx ''age'' = None))
   \<and> fst (app demo_env ''9'' (GetProfile (Some ''Bearer t1''))
             (fst (snd (app demo_env ''9'' (PutProfile (Some ''Bearer t1'') (Some (JObj demo_profile))) demo_db))))
       = Inr (200, ProfileBody 1 ''a@b.c'' None [(''mood'', [''happy'', ''calm'']), (''goal'', [''sleep''])])"
proof -
  have st: "storable demo_profile"
    by (simp add: storable_def storable_value_def demo_profile_def is_JStr_def)
  have sub: "submitted demo_profile = [(''mood'', ''happy''), (''mood'', ''calm''), (''goal'', ''sleep'')]"
    by (simp add: submitted_def submitted_value_def demo_profile_def the_JStr_def rendered_def)
  have keys: "fst ` set (submitted demo_profile) \<inter> set Object_prototype = {}"
    by (simp add: sub Object_prototype_def)
  have few: "3 * length (submitted demo_profile) \<le> max_bound_parameters"
    by (simp add: sub max_bound_parameters_def)
  have v: "values_of ''mood'' (submitted demo_profile) = [''happy'', ''calm'']"
    "values_of ''goal'' (submitted demo_profile) = [''sleep'']"
    by (simp_all add: sub values_of_def)
  have k: "''mood'' \<in> fst ` set (submitted demo_profile)" "''goal'' \<in> fst ` set (submitted demo_profile)"
    "''age'' \<notin> fst ` set (submitted demo_profile)"
    by (simp_all add: sub)
  have ev: "fst (app demo_env ''9'' (GetProfile (Some ''Bearer t1''))
             (fst (snd (app demo_env ''9'' (PutProfile (Some ''Bearer t1'') (Some (JObj demo_profile))) demo_db))))
       = Inr (200, ProfileBody 1 ''a@b.c'' None [(''mood'', [''happy'', ''calm'']), (''goal'', [''sleep''])])"
    by code_simp
  from profile_replaced [OF demo_auth demo_user st few, of "''9''" "''9''"] keys
  obtain d2 email name ctx where
    "app demo_env ''9'' (PutProfile (Some ''Bearer t1'') (Some (JObj demo_profile))) demo_db
                = (Inr (200, SuccessBody True ''Profile updated successfully''), d2, [])"
    "map fact_of (context_of 1 d2) = submitted demo_profile"
    "app demo_env ''9'' (GetProfile (Some ''Bearer t1'')) d2
                    = (Inr (200, ProfileBody 1 email name ctx), d2, [])"
    "\<forall>k. map_of ctx k = (if k \<in> fst ` set (submitted demo_profile)
                             then Some (values_of k (submitted demo_profile)) else None)"
    by blast
  then have "\<exists>d2. app demo_env ''9'' (PutProfile (Some ''Bearer t1'') (Some (JObj demo_profile))) demo_db
                = (Inr (200, SuccessBody True ''Profile updated successfully''), d2, [])
          \<and> map fact_of (context_of 1 d2) = submitted demo_profile
          \<and> (\<exists>email name ctx.
                  app demo_env ''9'' (GetProfile (Some ''Bearer t1'')) d2
                    = (Inr (200, ProfileBody 1 email name ctx), d2, [])
                  \<and> map_of ctx ''mood'' = Some [''happy'', ''calm'']
                  \<and> map_of ctx ''goal'' = Some [''sleep'']
                  \<and> map_of ctx ''age'' = None)"
    using v k by (intro exI [of _ d2] conjI exI [of _ email] exI [of _ name] exI [of _ ctx]) simp_all
  with demo_auth demo_user st few keys sub ev show ?thesis by blast
qed

text \<open>
  C4, as the specification has it, fails for a body with a \<^verbatim>\<open>null\<close> in an array: array
  elements are bound as they are, the column is \<^verbatim>\<open>notNull()\<close>, the insert fails after
  the delete has run, and the user is left with no fact and a 500 response.
\<close>

theorem null_element_empties_profile:
  "fst (app demo_env ''9'' (PutProfile (Some ''Bearer t1'')
          (Some (JObj [(''mood'', JArr [JStr ''happy'', JNull])]))) demo_db)
     = Inr (500, ErrorBody ''Failed to update profile'')
   \<and> context_of 1 (fst (snd (app demo_env ''9'' (PutProfile (Some ''Bearer t1'')
          (Some (JObj [(''mood'', JArr [JStr ''happy'', JNull])]))) demo_db))) = []"
  by code_simp

text \<open>
  Neither of the other two restrictions is idle. With a key such as \<open>constructor\<close> the
  update succeeds and the next \<^verbatim>\<open>GET /profile\<close> fails; with 34 values the insert is
  refused after the delete has run.
\<close>

lemma prototype_key_breaks_get_profile:
  "fst (app demo_env ''9'' (PutProfile (Some ''Bearer t1'')
          (Some (JObj [(''constructor'', JStr ''x'')]))) demo_db)
     = Inr (200, SuccessBody True ''Profile updated successfully'')
   \<and> fst (app demo_env ''9'' (GetProfile (Some ''Bearer t1''))
        (fst (snd (app demo_env ''9'' (PutProfile (Some ''Bearer t1'')
          (Some (JObj [(''constructor'', JStr ''x'')]))) demo_db))))
     = Inr (500, ErrorBody ''Failed to fetch profile'')"
  by code_simp

lemma too_many_values_fail:
  "length (submitted demo_many) = 34 \<and> storable demo_many
   \<and> fst (app demo_env ''9'' (PutProfile (Some ''Bearer t1'') (Some (JObj demo_many))) demo_db)
       = Inr (500, ErrorBody ''Failed to update profile'')
   \<and> context_of 1 (fst (snd (app demo_env ''9'' (PutProfile (Some ''Bearer t1'')
         (Some (JObj demo_many))) demo_db))) = []"
  by code_simp

lemma submitted_append: "submitted (fs @ gs) = submitted fs @ submitted gs"
  by (simp add: submitted_def)

lemma put_profile_empty:
  "put_profile e now userId (JObj []) d
     = (Inr (200, SuccessBody True ''Profile updated successfully''), delete_context userId d, [])"
  by (simp add: put_profile_def put_profile_try_def Object_entries_def Let_def)

text \<open>
  C10, as the code has it. In a body of at most 33 values that can all be stored, sent
  by a user present in the user table, a value that is not an array gives exactly one row, at
  its place among the rows of the other values, holding \<^verbatim>\<open>String(value)\<close>: \<open>null\<close>,
  \<open>true\<close>, \<open>false\<close>, the rendering of a number, a string itself, and
  \<^verbatim>\<open>[object Object]\<close> for an object without an own \<open>toString\<close>. A body with no keys
  answers 200 and leaves the database without any row of the user and with every row
  of the others.
\<close>

theorem scalar_values_stringified:
  assumes "startsWith h ''Bearer ''" and "verify e (substring h 7) (JWT_SECRET e) = Some userId"
  shows "(userId \<in> set (map user_id (users d)) \<and> storable (fs1 @ (key, v) # fs2)
          \<and> 3 * length (submitted (fs1 @ (key, v) # fs2)) \<le> max_bound_parameters
          \<and> \<not> is_JArr v \<longrightarrow>
            (\<exists>s d2. js_String v = Inr s
               \<and> app e now (PutProfile (Some h) (Some (JObj (fs1 @ (key, v) # fs2)))) d
                   = (Inr (200, SuccessBody True ''Profile updated successfully''), d2, [])
               \<and> map fact_of (context_of userId d2) = submitted fs1 @ [(key, s)] @ submitted fs2))
         \<and> js_String JNull = Inr ''null''
         \<and> js_String (JBool True) = Inr ''true'' \<and> js_String (JBool False) = Inr ''false''
         \<and> js_String (JNum n) = Inr n \<and> js_String (JStr t) = Inr t
         \<and> (''toString'' \<notin> fst ` set props \<longrightarrow> js_String (JObj props) = Inr ''[object Object]'')
         \<and> app e now (PutProfile (Some h) (Some (JObj []))) d
             = (Inr (200, SuccessBody True ''Profile updated successfully''), delete_context userId d, [])
         \<and> context_of userId (delete_context userId d) = []
         \<and> length (userContext (delete_context userId d))
             = length (filter (\<lambda>r. context_userId r \<noteq> userId) (userContext d))"
proof -
  have a: "authMiddleware e (Some h) d' k = k userId" for k d'
    using assms by (rule authMiddleware_accepts)
  have 1: "\<exists>s d2. js_String v = Inr s
               \<and> app e now (PutProfile (Some h) (Some (JObj (fs1 @ (key, v) # fs2)))) d
                   = (Inr (200, SuccessBody True ''Profile updated successfully''), d2, [])
               \<and> map fact_of (context_of userId d2) = submitted fs1 @ [(key, s)] @ submitted fs2"
    if u: "userId \<in> set (map user_id (users d))" and st: "storable (fs1 @ (key, v) # fs2)"
      and few: "3 * length (submitted (fs1 @ (key, v) # fs2)) \<le> max_bound_parameters"
      and v: "\<not> is_JArr v"
  proof -
    from st v obtain s where s: "js_String v = Inr s"
      by (cases v; cases "js_String v")
         (auto simp: storable_def storable_value_def is_JArr_def)
    then have "submitted_value (key, v) = [(key, s)]"
      using v by (cases v) (simp_all add: submitted_value_def rendered_def is_JArr_def)
    then have sub: "submitted (fs1 @ (key, v) # fs2) = submitted fs1 @ [(key, s)] @ submitted fs2"
      by (simp add: submitted_def)
    obtain d2 where "put_profile e now userId (JObj (fs1 @ (key, v) # fs2)) d
                = (Inr (200, SuccessBody True ''Profile updated successfully''), d2, [])"
      "map fact_of (context_of userId d2) = submitted (fs1 @ (key, v) # fs2)"
      using put_profile_storable [OF u st few] by blast
    with s sub show ?thesis by (simp add: a with_json_def)
  qed
  have 2: "''toString'' \<notin> fst ` set props \<longrightarrow> js_String (JObj props) = Inr ''[object Object]''"
    by simp
  have 3: "app e now (PutProfile (Some h) (Some (JObj []))) d
             = (Inr (200, SuccessBody True ''Profile updated successfully''), delete_context userId d, [])"
    by (simp add: a with_json_def put_profile_empty)
  have 4: "context_of userId (delete_context userId d) = []"
    "length (userContext (delete_context userId d))
             = length (filter (\<lambda>r. context_userId r \<noteq> userId) (userContext d))"
    by (simp_all add: context_of_def delete_context_def)
  from 1 2 3 4 show ?thesis by simp
qed

theorem scalar_values_stringified_witness:
  "startsWith ''Bearer t1'' ''Bearer ''
   \<and> verify demo_env (substring ''Bearer t1'' 7) (JWT_SECRET demo_env) = Some 1
   \<and> 1 \<in> set (map user_id (users demo_db))
   \<and> storable ([] @ (''age'', JNum ''30'') # demo_scalars)
   \<and> 3 * length (submitted ([] @ (''age'', JNum ''30'') # demo_scalars)) \<le> max_bound_parameters
   \<and> \<not> is_JArr (JNum ''30'')
   \<and> (\<exists>d2. app demo_env ''9'' (PutProfile (Some ''Bearer t1'')
                 (Some (JObj ([] @ (''age'', JNum ''30'') # demo_scalars)))) demo_db
               = (Inr (200, SuccessBody True ''Profile updated successfully''), d2, [])
          \<and> map fact_of (context_of 1 d2)
              = [(''age'', ''30''), (''ok'', ''true''), (''x'', ''null''), (''o'', ''[object Object]'')])
   \<and> ''toString'' \<notin> fst ` set [(''a'', JNum ''1'')]
   \<and> js_String (JObj [(''a'', JNum ''1'')]) = Inr ''[object Object]''
   \<and> app demo_env ''9'' (PutProfile (Some ''Bearer t1'') (Some (JObj []))) demo_db
       = (Inr (200, SuccessBody True ''Profile updated successfully''), delete_context 1 demo_db, [])"
proof -
  have st: "storable ([] @ (''age'', JNum ''30'') # demo_scalars)"
    by (simp add: storable_def storable_value_def demo_scalars_def)
  have na: "\<not> is_JArr (JNum ''30'')" by (simp add: is_JArr_def)
  have few: "3 * length (submitted ([] @ (''age'', JNum ''30'') # demo_scalars)) \<le> max_bound_parameters"
    by (simp add: submitted_def submitted_value_def demo_scalars_def max_bound_parameters_def)
  have sub: "submitted demo_scalars = [(''ok'', ''true''), (''x'', ''null''), (''o'', ''[object Object]'')]"
    by (simp add: submitted_def submitted_value_def demo_scalars_def rendered_def)
  have nt: "''toString'' \<notin> fst ` set [(''a'', JNum ''1'')]" by simp
  note t = scalar_values_stringified [OF demo_auth, of demo_db "[]" "''age''" "JNum ''30''" demo_scalars
             "''9''" _ _ "[(''a'', JNum ''1'')]"]
  from t demo_user st few na obtain s d2 where
    "js_String (JNum ''30'') = Inr s"
    "app demo_env ''9'' (PutProfile (Some ''Bearer t1'')
                 (Some (JObj ([] @ (''age'', JNum ''30'') # demo_scalars)))) demo_db
               = (Inr (200, SuccessBody True ''Profile updated successfully''), d2, [])"
    "map fact_of (context_of 1 d2) = submitted [] @ [(''age'', s)] @ submitted demo_scalars"
    by blast
  then have 1: "\<exists>d2. app demo_env ''9'' (PutProfile (Some ''Bearer t1'')
                 (Some (JObj ([] @ (''age'', JNum ''30'') # demo_scalars)))) demo_db
               = (Inr (200, SuccessBody True ''Profile updated successfully''), d2, [])
          \<and> map fact_of (context_of 1 d2)
              = [(''age'', ''30''), (''ok'', ''true''), (''x'', ''null''), (''o'', ''[object Object]'')]"
    using sub by (intro exI [of _ d2]) (auto simp: submitted_def)
  from t nt have 2: "js_String (JObj [(''a'', JNum ''1'')]) = Inr ''[object Object]''"
    and 3: "app demo_env ''9'' (PutProfile (Some ''Bearer t1'') (Some (JObj []))) demo_db
       = (Inr (200, SuccessBody True ''Profile updated successfully''), delete_context 1 demo_db, [])"
    by blast+
  from demo_auth demo_user st few na 1 nt 2 3 show ?thesis by blast
qed

text \<open>
  C10, as the specification has it, fails for an object that has an own property named
  \<open>toString\<close>: \<^verbatim>\<open>String\<close> throws, nothing is stored, the user's facts are gone and the
  response is 500.
\<close>

theorem own_toString_not_stringified:
  "js_String (JObj [(''toString'', JStr ''x'')]) = Inl TypeError
   \<and> fst (app demo_env ''9'' (PutProfile (Some ''Bearer t1'')
          (Some (JObj [(''k'', JObj [(''toString'', JStr ''x'')])]))) demo_db)
     = Inr (500, ErrorBody ''Failed to update profile'')
   \<and> context_of 1 (fst (snd (app demo_env ''9'' (PutProfile (Some ''Bearer t1'')
          (Some (JObj [(''k'', JObj [(''toString'', JStr ''x'')])]))) demo_db))) = []"
  by code_simp

end
